theory Spec2Isabelle
  imports Main "HOL-Library.Sublist"
begin

section \<open>Errors and time\<close>

text \<open>
  A Go \<^verbatim>\<open>error\<close> is observed in this program only through its message
  (\<^verbatim>\<open>err.Error()\<close>), so an error is modelled as that message and a possibly-nil
  error as an option. The constructors of \<^verbatim>\<open>github.com/pkg/errors\<close> build messages:
  \<^verbatim>\<open>New\<close> keeps the text, \<^verbatim>\<open>Wrap\<close>, \<^verbatim>\<open>Wrapf\<close> and
  \<^verbatim>\<open>WithMessage\<close> put the new text, a colon and a space before the cause.
\<close>

type_synonym error = string

definition errors_New :: "string \<Rightarrow> error" where
  "errors_New m = m"

definition errors_Wrap :: "error \<Rightarrow> string \<Rightarrow> error" where
  "errors_Wrap err m = m @ '': '' @ err"

definition errors_WithMessage :: "error \<Rightarrow> string \<Rightarrow> error" where
  "errors_WithMessage err m = m @ '': '' @ err"

text \<open>
  Times are nanoseconds since the Unix epoch, durations are nanoseconds.
  \<^verbatim>\<open>Time.Sub\<close> saturates at the least and greatest \<^verbatim>\<open>int64\<close> duration.
\<close>

definition maxDuration :: int where
  "maxDuration = 2 ^ 63 - 1"

definition minDuration :: int where
  "minDuration = - (2 ^ 63)"

definition time_Second :: int where
  "time_Second = 1000000000"

definition time_Sub :: "int \<Rightarrow> int \<Rightarrow> int" where
  "time_Sub t u =
     (let d = t - u in
      if maxDuration < d then maxDuration
      else if d < minDuration then minDuration
      else d)"

text \<open>
  \<^verbatim>\<open>timestampError\<close> of the registration handlers, with both \<^verbatim>\<open>%s\<close> filled in
  by the rendered times.
\<close>

definition timestampError :: "string \<Rightarrow> string \<Rightarrow> error" where
  "timestampError req cur =
     ''Timestamp of request must be within last 5 seconds.  Request timestamp: '' @ req
       @ '', current time: '' @ cur"

section \<open>Storage\<close>

text \<open>
  \<^verbatim>\<open>storage.User\<close> as \<^verbatim>\<open>databaseImpl.go\<close> uses it: the primary key \<^verbatim>\<open>Id\<close> and the
  device token.
\<close>

record User =
  Id :: string
  Token :: string

text \<open>
  The methods of the \<^verbatim>\<open>storage.Storage\<close> value that the handlers and the dispatch
  loop call, over a storage state \<open>'s\<close>. A method returns its error (if any) and the
  state it leaves; the read \<^verbatim>\<open>GetUser\<close> returns the user or the error.
\<close>

record 's Storage =
  Storage_GetUser :: "'s \<Rightarrow> string \<Rightarrow> error + User"
  Storage_DeleteUser :: "'s \<Rightarrow> string \<Rightarrow> error option \<times> 's"
  Storage_RegisterToken :: "'s \<Rightarrow> string \<Rightarrow> string \<Rightarrow> string \<Rightarrow> error option \<times> 's"
  Storage_RegisterTrackedID :: "'s \<Rightarrow> string \<Rightarrow> string \<Rightarrow> int \<Rightarrow> nat \<Rightarrow> error option \<times> 's"
  Storage_UnregisterToken :: "'s \<Rightarrow> string \<Rightarrow> string \<Rightarrow> error option \<times> 's"
  Storage_UnregisterTrackedIDs :: "'s \<Rightarrow> string \<Rightarrow> string \<Rightarrow> error option \<times> 's"

section \<open>Signed registration handlers\<close>

datatype NotificationTag =
  RegisterTokenTag | UnregisterTokenTag | RegisterTrackedIDTag | UnregisterTrackedIDTag

type_synonym PublicKey = string

text \<open>
  What a handler reads from outside the request: the clock, the permissioning host of
  \<^verbatim>\<open>nb.Comms\<close>, the library verification functions and the network definition.
  \<open>Now env k\<close> is the reading of the \<open>k\<close>-th call of \<^verbatim>\<open>time.Now()\<close> made by the
  handler, counted from 0.
\<close>

record Env =
  Now :: "nat \<Rightarrow> int"
  Time_String :: "int \<Rightarrow> string"
  GetHost_Permissioning :: "PublicKey option"
  VerifyWithTimestamp :: "PublicKey \<Rightarrow> int \<Rightarrow> string \<Rightarrow> string \<Rightarrow> error option"
  UnmarshalPublicKeyPEM :: "string \<Rightarrow> error + PublicKey"
  VerifyToken :: "PublicKey \<Rightarrow> string \<Rightarrow> string \<Rightarrow> int \<Rightarrow> NotificationTag \<Rightarrow> string \<Rightarrow> error option"
  VerifyIdentity :: "PublicKey \<Rightarrow> string \<Rightarrow> int \<Rightarrow> NotificationTag \<Rightarrow> string \<Rightarrow> error option"
  HandleQuantization :: "int \<Rightarrow> int \<times> int"
  AddressSpace :: "nat list"

record RegisterTokenRequest =
  App :: string
  Token_of :: string
  TransmissionRsaPem :: string
  TransmissionRsaRegistrarSig :: string
  RegistrationTimestamp :: int
  RequestTimestamp :: int
  TokenSignature :: string

record UnregisterTokenRequest =
  uApp :: string
  uToken :: string
  uTransmissionRsaPem :: string
  uRequestTimestamp :: int
  uTokenSignature :: string

record TrackedIntermediaryIdRequest =
  TrackedIntermediaryID :: string
  tTransmissionRsaPem :: string
  tRequestTimestamp :: int
  Signature :: string

record RegisterTrackedIdRequest =
  Request :: "TrackedIntermediaryIdRequest option"
  rRegistrationTimestamp :: int
  rTransmissionRsaRegistrarSig :: string

definition RegisterToken ::
  "Env \<Rightarrow> 's Storage \<Rightarrow> RegisterTokenRequest \<Rightarrow> 's \<Rightarrow> error option \<times> 's" where
  "RegisterToken env st msg s =
     (let requestTimestamp = RequestTimestamp msg in
      if time_Second * 5 < time_Sub (Now env 0) requestTimestamp
      then (Some (timestampError (Time_String env requestTimestamp)
                    (Time_String env (Now env 1))), s)
      else case GetHost_Permissioning env of
        None \<Rightarrow>
          (Some (errors_New ''Could not find permissioning host to verify client signature''), s)
      | Some permKey \<Rightarrow>
         (case VerifyWithTimestamp env permKey (RegistrationTimestamp msg)
                 (TransmissionRsaPem msg) (TransmissionRsaRegistrarSig msg) of
            Some err \<Rightarrow>
              (Some (errors_WithMessage err ''Failed to verify permissioning signature''), s)
          | None \<Rightarrow>
             (case UnmarshalPublicKeyPEM env (TransmissionRsaPem msg) of
                Inl err \<Rightarrow> (Some (errors_WithMessage err ''Failed to unmarshal public key''), s)
              | Inr pub \<Rightarrow>
                 (case VerifyToken env pub (Token_of msg) (App msg) requestTimestamp
                         RegisterTokenTag (TokenSignature msg) of
                    Some err \<Rightarrow>
                      (Some (errors_WithMessage err ''Failed to verify token signature''), s)
                  | None \<Rightarrow>
                      Storage_RegisterToken st s (Token_of msg) (App msg)
                        (TransmissionRsaPem msg)))))"

text \<open>
  The result \<open>None\<close> is a run-time panic. The inner \<^verbatim>\<open>Request\<close> is a pointer, and
  reading its timestamp panics when it is nil; \<^verbatim>\<open>AddressSpace[0]\<close> panics on an empty
  list, after every check has passed and before storage is called.
\<close>

definition RegisterTrackedID ::
  "Env \<Rightarrow> 's Storage \<Rightarrow> RegisterTrackedIdRequest \<Rightarrow> 's \<Rightarrow> (error option \<times> 's) option" where
  "RegisterTrackedID env st msg s =
     (case Request msg of
        None \<Rightarrow> None
      | Some req \<Rightarrow>
         (let requestTimestamp = tRequestTimestamp req in
          if time_Second * 5 < time_Sub (Now env 0) requestTimestamp
          then Some (Some (timestampError (Time_String env requestTimestamp)
                             (Time_String env (Now env 1))), s)
          else case GetHost_Permissioning env of
            None \<Rightarrow>
              Some (Some (errors_New
                      ''Could not find permissioning host to verify client signature''), s)
          | Some permKey \<Rightarrow>
             (case VerifyWithTimestamp env permKey (rRegistrationTimestamp msg)
                     (tTransmissionRsaPem req) (rTransmissionRsaRegistrarSig msg) of
                Some err \<Rightarrow>
                  Some (Some (errors_WithMessage err
                          ''Failed to verify permissioning signature''), s)
              | None \<Rightarrow>
                 (case UnmarshalPublicKeyPEM env (tTransmissionRsaPem req) of
                    Inl err \<Rightarrow>
                      Some (Some (errors_WithMessage err
                              ''Failed to unmarshal public key''), s)
                  | Inr pub \<Rightarrow>
                     (case VerifyIdentity env pub (TrackedIntermediaryID req)
                             requestTimestamp RegisterTrackedIDTag (Signature req) of
                        Some err \<Rightarrow>
                          Some (Some (errors_WithMessage err
                                  ''Failed to verify identity signature''), s)
                      | None \<Rightarrow>
                         (let epoch = snd (HandleQuantization env (Now env 1)) in
                          case AddressSpace env of
                            [] \<Rightarrow> None
                          | size0 # _ \<Rightarrow>
                              Some (Storage_RegisterTrackedID st s
                                      (TrackedIntermediaryID req)
                                      (tTransmissionRsaPem req) epoch size0)))))))"

definition UnregisterToken ::
  "Env \<Rightarrow> 's Storage \<Rightarrow> UnregisterTokenRequest \<Rightarrow> 's \<Rightarrow> error option \<times> 's" where
  "UnregisterToken env st msg s =
     (let requestTimestamp = uRequestTimestamp msg in
      if time_Second * 5 < time_Sub (Now env 0) requestTimestamp
      then (Some (timestampError (Time_String env requestTimestamp)
                    (Time_String env (Now env 1))), s)
      else case UnmarshalPublicKeyPEM env (uTransmissionRsaPem msg) of
        Inl err \<Rightarrow> (Some (errors_WithMessage err ''Failed to unmarshal public key''), s)
      | Inr pub \<Rightarrow>
         (case VerifyToken env pub (uToken msg) (uApp msg) requestTimestamp
                 UnregisterTokenTag (uTokenSignature msg) of
            Some err \<Rightarrow>
              (Some (errors_WithMessage err ''Failed to verify token signature''), s)
          | None \<Rightarrow>
              Storage_UnregisterToken st s (uToken msg) (uTransmissionRsaPem msg)))"

definition UnregisterTrackedID ::
  "Env \<Rightarrow> 's Storage \<Rightarrow> TrackedIntermediaryIdRequest \<Rightarrow> 's \<Rightarrow> error option \<times> 's" where
  "UnregisterTrackedID env st msg s =
     (let requestTimestamp = tRequestTimestamp msg in
      if time_Second * 5 < time_Sub (Now env 0) requestTimestamp
      then (Some (timestampError (Time_String env requestTimestamp)
                    (Time_String env (Now env 1))), s)
      else case UnmarshalPublicKeyPEM env (tTransmissionRsaPem msg) of
        Inl err \<Rightarrow> (Some (errors_WithMessage err ''Failed to unmarshal public key''), s)
      | Inr pub \<Rightarrow>
         (case VerifyIdentity env pub (TrackedIntermediaryID msg) requestTimestamp
                 UnregisterTrackedIDTag (Signature msg) of
            Some err \<Rightarrow>
              (Some (errors_WithMessage err ''Failed to verify identity signature''), s)
          | None \<Rightarrow>
              Storage_UnregisterTrackedIDs st s (TrackedIntermediaryID msg)
                (tTransmissionRsaPem msg)))"

text \<open>
  The failure kinds of the specification's taxonomy, told apart by the text with which
  the handlers start the message.
\<close>

definition StaleRequest :: "error \<Rightarrow> bool" where
  "StaleRequest err \<longleftrightarrow>
     prefix ''Timestamp of request must be within last 5 seconds.'' err"

definition UntrustedKey :: "error \<Rightarrow> bool" where
  "UntrustedKey err \<longleftrightarrow>
     err = ''Could not find permissioning host to verify client signature''
     \<or> prefix ''Failed to verify permissioning signature: '' err"

definition BadSignature :: "error \<Rightarrow> bool" where
  "BadSignature err \<longleftrightarrow>
     prefix ''Failed to unmarshal public key: '' err
     \<or> prefix ''Failed to verify token signature: '' err
     \<or> prefix ''Failed to verify identity signature: '' err"

text \<open>
  The verification steps as predicates of the request: the registrar signature verifies
  under the key of a known permissioning host; a token or identity signature verifies
  under the key that the PEM encodes.
\<close>

definition registrar_verifies :: "Env \<Rightarrow> int \<Rightarrow> string \<Rightarrow> string \<Rightarrow> bool" where
  "registrar_verifies env regTimestamp pem sig =
     (case GetHost_Permissioning env of
        None \<Rightarrow> False
      | Some permKey \<Rightarrow> VerifyWithTimestamp env permKey regTimestamp pem sig = None)"

definition token_verifies ::
  "Env \<Rightarrow> string \<Rightarrow> string \<Rightarrow> string \<Rightarrow> int \<Rightarrow> NotificationTag \<Rightarrow> string \<Rightarrow> bool" where
  "token_verifies env pem token app ts tag sig =
     (case UnmarshalPublicKeyPEM env pem of
        Inl err \<Rightarrow> False
      | Inr pub \<Rightarrow> VerifyToken env pub token app ts tag sig = None)"

definition identity_verifies ::
  "Env \<Rightarrow> string \<Rightarrow> string \<Rightarrow> int \<Rightarrow> NotificationTag \<Rightarrow> string \<Rightarrow> bool" where
  "identity_verifies env pem iid ts tag sig =
     (case UnmarshalPublicKeyPEM env pem of
        Inl err \<Rightarrow> False
      | Inr pub \<Rightarrow> VerifyIdentity env pub iid ts tag sig = None)"

text \<open>
  A valid signed request: fresh at the time the handler reads the clock, and every
  signature that its handler checks verifies.
\<close>

definition valid_RegisterToken :: "Env \<Rightarrow> RegisterTokenRequest \<Rightarrow> bool" where
  "valid_RegisterToken env msg \<longleftrightarrow>
     Now env 0 - RequestTimestamp msg \<le> 5000000000
     \<and> registrar_verifies env (RegistrationTimestamp msg) (TransmissionRsaPem msg)
           (TransmissionRsaRegistrarSig msg)
     \<and> token_verifies env (TransmissionRsaPem msg) (Token_of msg) (App msg)
           (RequestTimestamp msg) RegisterTokenTag (TokenSignature msg)"

definition valid_UnregisterToken :: "Env \<Rightarrow> UnregisterTokenRequest \<Rightarrow> bool" where
  "valid_UnregisterToken env msg \<longleftrightarrow>
     Now env 0 - uRequestTimestamp msg \<le> 5000000000
     \<and> token_verifies env (uTransmissionRsaPem msg) (uToken msg) (uApp msg)
           (uRequestTimestamp msg) UnregisterTokenTag (uTokenSignature msg)"

definition valid_UnregisterTrackedID :: "Env \<Rightarrow> TrackedIntermediaryIdRequest \<Rightarrow> bool" where
  "valid_UnregisterTrackedID env msg \<longleftrightarrow>
     Now env 0 - tRequestTimestamp msg \<le> 5000000000
     \<and> identity_verifies env (tTransmissionRsaPem msg) (TrackedIntermediaryID msg)
           (tRequestTimestamp msg) UnregisterTrackedIDTag (Signature msg)"

section \<open>The database backend\<close>

text \<open>
  \<^verbatim>\<open>DatabaseImpl\<close> holds the handle \<^verbatim>\<open>pg\<close> of the Postgres driver. The state behind the
  handle is the table of users (rows in insertion order, primary key \<^verbatim>\<open>Id\<close>); the two
  other collections of the specification's data model are kept beside it.
\<close>

record TrackedIdentity =
  IntermediaryId :: string
  Owner :: string
  OffsetNum :: int
  AddressSpaceSize :: nat

record EphemeralEpochRecord =
  EphemeralId :: int
  eIntermediaryId :: string
  Offset :: int
  Created :: int
  Expiry :: int

record DB =
  users :: "User list"
  identities :: "TrackedIdentity list"
  ephemerals :: "EphemeralEpochRecord list"

text \<open>
  The driver statements the backend issues, on a server that answers: select by primary
  key (\<^verbatim>\<open>pg.ErrNoRows\<close> when no row has the key), delete by primary key (the same error
  when no row was deleted), and insert with \<^verbatim>\<open>ON CONFLICT (Id) DO UPDATE SET Token\<close>.
\<close>

definition pg_ErrNoRows :: error where
  "pg_ErrNoRows = ''pg: no rows in result set''"

definition pg_Select :: "DB \<Rightarrow> User \<Rightarrow> error + User" where
  "pg_Select db u =
     (case find (\<lambda>r. Id r = Id u) (users db) of
        None \<Rightarrow> Inl pg_ErrNoRows
      | Some r \<Rightarrow> Inr r)"

definition pg_Delete :: "DB \<Rightarrow> User \<Rightarrow> error option \<times> DB" where
  "pg_Delete db u =
     (if list_ex (\<lambda>r. Id r = Id u) (users db)
      then (None, db\<lparr>users := filter (\<lambda>r. Id r \<noteq> Id u) (users db)\<rparr>)
      else (Some pg_ErrNoRows, db))"

definition pg_Insert_OnConflict :: "DB \<Rightarrow> User \<Rightarrow> error option \<times> DB" where
  "pg_Insert_OnConflict db u =
     (if list_ex (\<lambda>r. Id r = Id u) (users db)
      then (None, db\<lparr>users :=
              map (\<lambda>r. if Id r = Id u then r\<lparr>Token := Token u\<rparr> else r) (users db)\<rparr>)
      else (None, db\<lparr>users := users db @ [u]\<rparr>))"

definition GetUser :: "DB \<Rightarrow> string \<Rightarrow> error + User" where
  "GetUser db userId =
     (case pg_Select db \<lparr>Id = userId, Token = ''''\<rparr> of
        Inl err \<Rightarrow> Inl (''Failed to retrieve user with ID '' @ userId @ '': '' @ err)
      | Inr u \<Rightarrow> Inr u)"

definition DeleteUser :: "DB \<Rightarrow> string \<Rightarrow> error option \<times> DB" where
  "DeleteUser db userId =
     (case pg_Delete db \<lparr>Id = userId, Token = ''''\<rparr> of
        (Some err, db') \<Rightarrow>
          (Some (''Failed to delete user with ID '' @ userId @ '': '' @ err), db')
      | (None, db') \<Rightarrow> (None, db'))"

text \<open>
  \<^verbatim>\<open>UpsertUser\<close> writes, reads the row back and compares the token. The second message
  formats a nil error, which prints as \<^verbatim>\<open><nil>\<close>.
\<close>

definition UpsertUser :: "DB \<Rightarrow> User \<Rightarrow> error option \<times> DB" where
  "UpsertUser db user =
     (let expectedToken = Token user in
      case pg_Insert_OnConflict db user of
        (Some err, db') \<Rightarrow>
          (Some (''Failed to insert user '' @ Id user @ '': '' @ err), db')
      | (None, db') \<Rightarrow>
         (case pg_Select db' user of
            Inl err \<Rightarrow> (Some (''User was not inserted properly: '' @ err), db')
          | Inr u \<Rightarrow>
              if expectedToken \<noteq> Token u
              then (Some ''User was not inserted properly: <nil>'', db')
              else (None, db')))"

subsection \<open>Storage operations behind the registration handlers\<close>

text \<open>
  The parameters the storage layer takes from the network: the fingerprint of a PEM
  key, the derivation of the ephemeral identity from intermediary identity, offset and
  address-space size, the epoch duration, and the storage layer's reading of the clock.
\<close>

record Network =
  Fingerprint :: "string \<Rightarrow> string"
  Derive :: "string \<Rightarrow> int \<Rightarrow> nat \<Rightarrow> int"
  EpochDuration :: int
  Clock :: int

text \<open>
  Modelled from the spec: \<^verbatim>\<open>Storage.RegisterToken\<close>, which is not among the sources.
  It upserts the User keyed by the key fingerprint (section 4.1, step 4), through
  \<^verbatim>\<open>UpsertUser\<close>.
\<close>

definition db_RegisterToken ::
  "Network \<Rightarrow> DB \<Rightarrow> string \<Rightarrow> string \<Rightarrow> string \<Rightarrow> error option \<times> DB" where
  "db_RegisterToken net db token app pem =
     UpsertUser db \<lparr>Id = Fingerprint net pem, Token = token\<rparr>"

text \<open>
  Modelled from the spec: \<^verbatim>\<open>Storage.UnregisterToken\<close>, which is not among the sources.
  It deletes the User of the key; a missing User is not an error (section 4.1).
\<close>

definition db_UnregisterToken ::
  "Network \<Rightarrow> DB \<Rightarrow> string \<Rightarrow> string \<Rightarrow> error option \<times> DB" where
  "db_UnregisterToken net db token pem =
     (None, db\<lparr>users := filter (\<lambda>r. Id r \<noteq> Fingerprint net pem) (users db)\<rparr>)"

text \<open>
  Modelled from the spec: \<^verbatim>\<open>Storage.RegisterTrackedID\<close>, which is not among the
  sources. It inserts a TrackedIdentity with the offset and address-space size it is
  given and at once creates the epoch record for it, with expiry = creation time + epoch
  duration (sections 3 and 4.1); the record is written once per identity and offset.
  The handler's comment adds that the key must be registered with a token.
\<close>

definition db_RegisterTrackedID ::
  "Network \<Rightarrow> DB \<Rightarrow> string \<Rightarrow> string \<Rightarrow> int \<Rightarrow> nat \<Rightarrow> error option \<times> DB" where
  "db_RegisterTrackedID net db iid pem epoch addressSpace =
     (if \<not> list_ex (\<lambda>r. Id r = Fingerprint net pem) (users db)
      then (Some ''TransmissionRSA is not registered with a valid token'', db)
      else
        let t = \<lparr>IntermediaryId = iid, Owner = Fingerprint net pem, OffsetNum = epoch,
                 AddressSpaceSize = addressSpace\<rparr>;
            e = \<lparr>EphemeralId = Derive net iid epoch addressSpace, eIntermediaryId = iid,
                 Offset = epoch, Created = Clock net,
                 Expiry = Clock net + EpochDuration net\<rparr>
        in (None, db\<lparr>identities :=
                      (if t \<in> set (identities db) then identities db
                       else identities db @ [t]),
                    ephemerals :=
                      (if list_ex (\<lambda>r. eIntermediaryId r = iid \<and> Offset r = epoch)
                            (ephemerals db)
                       then ephemerals db else ephemerals db @ [e])\<rparr>))"

text \<open>
  Modelled from the spec: \<^verbatim>\<open>Storage.UnregisterTrackedIDs\<close>, which is not among the
  sources. It removes the TrackedIdentity of the key; a missing one is not an error.
\<close>

definition db_UnregisterTrackedIDs ::
  "Network \<Rightarrow> DB \<Rightarrow> string \<Rightarrow> string \<Rightarrow> error option \<times> DB" where
  "db_UnregisterTrackedIDs net db iid pem =
     (None, db\<lparr>identities :=
        filter (\<lambda>t. \<not> (IntermediaryId t = iid \<and> Owner t = Fingerprint net pem))
          (identities db)\<rparr>)"

text \<open>
  Modelled from the spec: the deleter pass of the Epoch Manager (\<^verbatim>\<open>initDeleter\<close> and the
  pruning operation of storage are not among the sources, only their test is). For every
  EphemeralEpochRecord whose expiry time has passed, delete it (section 4.2).
\<close>

definition deleter_pass :: "int \<Rightarrow> DB \<Rightarrow> DB" where
  "deleter_pass now db = db\<lparr>ephemerals := filter (\<lambda>r. \<not> Expiry r < now) (ephemerals db)\<rparr>"

definition DatabaseImpl :: "Network \<Rightarrow> DB Storage" where
  "DatabaseImpl net =
     \<lparr>Storage_GetUser = GetUser,
      Storage_DeleteUser = DeleteUser,
      Storage_RegisterToken = db_RegisterToken net,
      Storage_RegisterTrackedID = db_RegisterTrackedID net,
      Storage_UnregisterToken = db_UnregisterToken net,
      Storage_UnregisterTrackedIDs = db_UnregisterTrackedIDs net\<rparr>"

section \<open>Push provider\<close>

text \<open>
  \<^verbatim>\<open>strings.Contains\<close>: the second string occurs in the first as a contiguous run.
\<close>

fun strings_Contains :: "string \<Rightarrow> string \<Rightarrow> bool" where
  "strings_Contains [] substr = (substr = [])"
| "strings_Contains (c # cs) substr = (prefix substr (c # cs) \<or> strings_Contains cs substr)"

record Message =
  Title :: string
  Body :: string
  mToken :: string

text \<open>
  The messaging client behind \<^verbatim>\<open>FBSender\<close>: \<open>Answer\<close> is what the provider returns for
  a message, \<open>Outbox\<close> the messages handed to it so far.
\<close>

record Client =
  Answer :: "Message \<Rightarrow> string \<times> error option"
  Outbox :: "Message list"

definition Send :: "Client \<Rightarrow> Message \<Rightarrow> (string \<times> error option) \<times> Client" where
  "Send app message = (Answer app message, app\<lparr>Outbox := Outbox app @ [message]\<rparr>)"

definition sendNotification :: "Client \<Rightarrow> string \<Rightarrow> (string \<times> error option) \<times> Client" where
  "sendNotification app token =
     (let message = \<lparr>Title = ''xx Messenger'',
                     Body = ''You have a new message in the xx Messenger'',
                     mToken = token\<rparr>
      in case Send app message of
           ((resp, Some err), app') \<Rightarrow>
             ((resp, Some (errors_Wrap err
                 (''Failed to send notification.  Response: '' @ resp))), app')
         | ((resp, None), app') \<Rightarrow> ((resp, None), app'))"

record FirebaseComm =
  SendNotification :: "Client \<Rightarrow> string \<Rightarrow> (string \<times> error option) \<times> Client"

definition NewFirebaseComm :: FirebaseComm where
  "NewFirebaseComm = \<lparr>SendNotification = sendNotification\<rparr>"

section \<open>Dispatch\<close>

definition notifyUser ::
  "Client \<Rightarrow> string \<Rightarrow> FirebaseComm \<Rightarrow> 's Storage \<Rightarrow> 's
     \<Rightarrow> (string \<times> error option) \<times> Client \<times> 's" where
  "notifyUser fcm uid fc st db =
     (case Storage_GetUser st db uid of
        Inl err \<Rightarrow> (('''', None), fcm, db)
      | Inr u \<Rightarrow>
         (case SendNotification fc fcm (Token u) of
            ((resp, None), fcm') \<Rightarrow> ((resp, None), fcm', db)
          | ((resp, Some err), fcm') \<Rightarrow>
              if strings_Contains err ''403'' \<or> strings_Contains err ''404''
              then (case Storage_DeleteUser st db uid of
                      (Some err', db') \<Rightarrow>
                        (('''', Some (errors_Wrap err'
                            (''Failed to remove user registration for uid: '' @ uid))),
                         fcm', db')
                    | (None, db') \<Rightarrow> ((resp, None), fcm', db'))
              else (('''', Some (errors_Wrap err
                      (''Failed to send notification to user with ID '' @ uid))),
                    fcm', db)))"

text \<open>
  What one poll reads from \<^verbatim>\<open>nb.Comms\<close>: the gateway host, if known, and the answer
  of \<^verbatim>\<open>RequestNotifications\<close>.
\<close>

record Comms =
  GetHost_gwId :: "string option"
  RequestNotifications :: "string \<Rightarrow> error + string list"

definition pollForNotifications :: "Comms \<Rightarrow> string list \<times> error option" where
  "pollForNotifications comms =
     (case GetHost_gwId comms of
        None \<Rightarrow> ([], Some (errors_New ''Could not find gateway host''))
      | Some h \<Rightarrow>
         (case RequestNotifications comms h of
            Inl err \<Rightarrow>
              ([], Some (errors_Wrap err ''Failed to retrieve notifications from gateway''))
          | Inr ids \<Rightarrow> (ids, None)))"

text \<open>
  \<^verbatim>\<open>%+v\<close> of a byte slice prints the bytes in decimal between brackets, separated by
  spaces.
\<close>

fun fmt_nat :: "nat \<Rightarrow> string" where
  "fmt_nat n =
     (if n < 10 then [char_of (48 + n)]
      else fmt_nat (n div 10) @ [char_of (48 + n mod 10)])"

fun fmt_items :: "string \<Rightarrow> string" where
  "fmt_items [] = []"
| "fmt_items [c] = fmt_nat (of_char c)"
| "fmt_items (c # cs) = fmt_nat (of_char c) @ '' '' @ fmt_items cs"

definition fmt_bytes :: "string \<Rightarrow> string" where
  "fmt_bytes bs = ''['' @ fmt_items bs @ '']''"

text \<open>
  The fields of \<^verbatim>\<open>Impl\<close> the loop uses. The messaging client and the storage state
  change as the loop runs, and the errors sent on \<^verbatim>\<open>errChan\<close> are collected in order.
\<close>

record 's Impl =
  Storage :: "'s Storage"
  pollFunc :: "Comms \<Rightarrow> string list \<times> error option"
  notifyFunc :: "Client \<Rightarrow> string \<Rightarrow> FirebaseComm \<Rightarrow> 's Storage \<Rightarrow> 's
                   \<Rightarrow> (string \<times> error option) \<times> Client \<times> 's"

record 's World =
  fcm :: Client
  store :: "'s"
  errChan :: "error list"

text \<open>
  The inner loop over the polled identities: it stops at the first error of
  \<^verbatim>\<open>notifyFunc\<close> and hands back that error, wrapped.
\<close>

fun range_UIDs :: "'s Impl \<Rightarrow> FirebaseComm \<Rightarrow> string list \<Rightarrow> 's World
                     \<Rightarrow> error option \<times> 's World" where
  "range_UIDs nb fc [] w = (None, w)"
| "range_UIDs nb fc (uid # UIDs) w =
     (case notifyFunc nb (fcm w) uid fc (Storage nb) (store w) of
        ((_, Some err), fcm', db') \<Rightarrow>
          (Some (errors_Wrap err (''Failed to notify user with ID '' @ fmt_bytes uid)),
           w\<lparr>fcm := fcm', store := db'\<rparr>)
      | ((_, None), fcm', db') \<Rightarrow> range_UIDs nb fc UIDs (w\<lparr>fcm := fcm', store := db'\<rparr>))"

text \<open>
  One event per iteration: which case the \<^verbatim>\<open>select\<close> took, and for the timer case what
  the gateway would answer to that iteration's poll. The loop runs over the events
  observed so far; it has \<open>Returned\<close>, or is still \<open>Running\<close> when they are used up.
\<close>

datatype event = KillChan | TimeAfter Comms

datatype outcome = Returned | Running

fun RunNotificationLoop :: "'s Impl \<Rightarrow> event list \<Rightarrow> 's World \<Rightarrow> outcome \<times> 's World" where
  "RunNotificationLoop nb [] w = (Running, w)"
| "RunNotificationLoop nb (KillChan # evs) w = (Returned, w)"
| "RunNotificationLoop nb (TimeAfter comms # evs) w =
     (case pollFunc nb comms of
        (UIDs, Some err) \<Rightarrow>
          (Returned,
           w\<lparr>errChan := errChan w
                @ [errors_Wrap err ''Failed to poll gateway for users to notify'']\<rparr>)
      | (UIDs, None) \<Rightarrow>
         (case range_UIDs nb NewFirebaseComm UIDs w of
            (Some err, w') \<Rightarrow> (Returned, w'\<lparr>errChan := errChan w' @ [err]\<rparr>)
          | (None, w') \<Rightarrow> RunNotificationLoop nb evs w'))"

text \<open>
  The \<^verbatim>\<open>Impl\<close> in production: \<^verbatim>\<open>StartNotifications\<close> stores the two functions of
  this package in it, and the storage is the one it is given.
\<close>

definition production :: "'s Storage \<Rightarrow> 's Impl" where
  "production st =
     \<lparr>Storage = st, pollFunc = pollForNotifications, notifyFunc = notifyUser\<rparr>"

section \<open>A concrete instance\<close>

text \<open>
  A clock at 100 seconds, a permissioning host, and library functions that accept one
  registrar signature, one PEM key and one signature of each kind; a minute is the epoch.
\<close>

definition ex_env :: Env where
  "ex_env =
     \<lparr>Now = (\<lambda>k. 100000000000 + int k),
      Time_String = (\<lambda>t. if t < 50000000000 then ''early'' else ''late''),
      GetHost_Permissioning = Some ''permissioning key'',
      VerifyWithTimestamp = (\<lambda>key ts pem sig.
         if key = ''permissioning key'' \<and> sig = ''registrar signature'' then None
         else Some ''crypto/rsa: verification error''),
      UnmarshalPublicKeyPEM = (\<lambda>pem.
         if pem = ''pem K'' then Inr ''key K'' else Inl ''could not decode PEM block''),
      VerifyToken = (\<lambda>pub token app ts tag sig.
         if pub = ''key K'' \<and> sig = ''token signature'' then None
         else Some ''crypto/rsa: verification error''),
      VerifyIdentity = (\<lambda>pub iid ts tag sig.
         if pub = ''key K'' \<and> sig = ''identity signature'' then None
         else Some ''crypto/rsa: verification error''),
      HandleQuantization = (\<lambda>t. (t - t mod 60000000000, t div 60000000000)),
      AddressSpace = [16]\<rparr>"

definition ex_net :: Network where
  "ex_net =
     \<lparr>Fingerprint = (\<lambda>pem. ''fp of '' @ pem),
      Derive = (\<lambda>iid epoch size. (int (length iid) + epoch) mod 2 ^ size),
      EpochDuration = 60000000000,
      Clock = 100000000002\<rparr>"

definition ex_db :: DB where
  "ex_db = \<lparr>users = [\<lparr>Id = ''zezima'', Token = ''token Z''\<rparr>], identities = [],
            ephemerals = []\<rparr>"

definition ex_register :: "int \<Rightarrow> string \<Rightarrow> RegisterTokenRequest" where
  "ex_register ts token =
     \<lparr>App = ''xx messenger'', Token_of = token, TransmissionRsaPem = ''pem K'',
      TransmissionRsaRegistrarSig = ''registrar signature'', RegistrationTimestamp = 7,
      RequestTimestamp = ts, TokenSignature = ''token signature''\<rparr>"

definition ex_unregister :: "int \<Rightarrow> UnregisterTokenRequest" where
  "ex_unregister ts =
     \<lparr>uApp = ''xx messenger'', uToken = ''tokA'', uTransmissionRsaPem = ''pem K'',
      uRequestTimestamp = ts, uTokenSignature = ''token signature''\<rparr>"

definition ex_tracked :: "int \<Rightarrow> TrackedIntermediaryIdRequest" where
  "ex_tracked ts =
     \<lparr>TrackedIntermediaryID = ''abc123'', tTransmissionRsaPem = ''pem K'',
      tRequestTimestamp = ts, Signature = ''identity signature''\<rparr>"

definition ex_register_tracked :: "int \<Rightarrow> RegisterTrackedIdRequest" where
  "ex_register_tracked ts =
     \<lparr>Request = Some (ex_tracked ts), rRegistrationTimestamp = 7,
      rTransmissionRsaRegistrarSig = ''registrar signature''\<rparr>"

text \<open>
  A provider that rejects one token as not found, is unavailable for another and accepts
  the rest; a storage whose deletions fail; a gateway that reports identities, and one
  that does not answer.
\<close>

definition ex_client :: Client where
  "ex_client =
     \<lparr>Answer = (\<lambda>m.
         if mToken m = ''token Z''
         then ([], Some ''http error status: 404; reason: requested entity was not found'')
         else if mToken m = ''token Q''
         then ([], Some ''http error status: 503; reason: unavailable'')
         else (''projects/xx/messages/1'', None)),
      Outbox = []\<rparr>"

definition ex_failing_delete :: "DB Storage" where
  "ex_failing_delete =
     (DatabaseImpl ex_net)\<lparr>Storage_DeleteUser := (\<lambda>s uid. (Some ''connection refused'', s))\<rparr>"

definition ex_db2 :: DB where
  "ex_db2 = \<lparr>users = [\<lparr>Id = ''zezima'', Token = ''token Z''\<rparr>,
                       \<lparr>Id = ''durial'', Token = ''token Q''\<rparr>,
                       \<lparr>Id = ''ok'', Token = ''token K''\<rparr>],
             identities = [], ephemerals = []\<rparr>"

text \<open>
  A storage in which key K is registered and tracks one identity, with one epoch record
  that expires at time 50 and one that expires at time 150.
\<close>

definition ex_db_K :: DB where
  "ex_db_K =
     \<lparr>users = [\<lparr>Id = ''zezima'', Token = ''token Z''\<rparr>,
               \<lparr>Id = ''fp of pem K'', Token = ''tokA''\<rparr>],
      identities = [\<lparr>IntermediaryId = ''abc123'', Owner = ''fp of pem K'', OffsetNum = 0,
                      AddressSpaceSize = 16\<rparr>],
      ephemerals = [\<lparr>EphemeralId = 6, eIntermediaryId = ''abc123'', Offset = 0,
                      Created = 10, Expiry = 50\<rparr>,
                    \<lparr>EphemeralId = 9, eIntermediaryId = ''xyz'', Offset = 3,
                      Created = 110, Expiry = 150\<rparr>]\<rparr>"

definition ex_comms :: "string list \<Rightarrow> Comms" where
  "ex_comms ids = \<lparr>GetHost_gwId = Some ''gateway'', RequestNotifications = (\<lambda>h. Inr ids)\<rparr>"

definition ex_comms_down :: Comms where
  "ex_comms_down =
     \<lparr>GetHost_gwId = Some ''gateway'',
      RequestNotifications = (\<lambda>h. Inl ''context deadline exceeded'')\<rparr>"

definition ex_world :: "DB \<Rightarrow> DB World" where
  "ex_world db = \<lparr>fcm = ex_client, store = db, errChan = []\<rparr>"

section \<open>Freshness\<close>

lemma time_Sub_stale_iff:
  "time_Second * 5 < time_Sub t u \<longleftrightarrow> 5000000000 < t - u"
  by (simp add: time_Sub_def time_Second_def maxDuration_def minDuration_def Let_def)

lemma StaleRequest_timestampError: "StaleRequest (timestampError req cur)"
  by (simp add: StaleRequest_def timestampError_def)

text \<open>
  C1. A request to any of the four signed operations whose timestamp lies more than five
  seconds before the current time is rejected with a StaleRequest failure and the
  storage state is returned as it was. Nothing is assumed of the signatures, of the
  permissioning host or of the storage implementation. For RegisterTrackedID the
  timestamp is that of the inner request, which has to be present to have one.
\<close>

theorem stale_request_rejected:
  "(5000000000 < Now env 0 - RequestTimestamp m1 \<longrightarrow>
      (\<exists>err. RegisterToken env st m1 s = (Some err, s) \<and> StaleRequest err))
   \<and> (Request m2 = Some req \<and> 5000000000 < Now env 0 - tRequestTimestamp req \<longrightarrow>
      (\<exists>err. RegisterTrackedID env st m2 s = Some (Some err, s) \<and> StaleRequest err))
   \<and> (5000000000 < Now env 0 - uRequestTimestamp m3 \<longrightarrow>
      (\<exists>err. UnregisterToken env st m3 s = (Some err, s) \<and> StaleRequest err))
   \<and> (5000000000 < Now env 0 - tRequestTimestamp m4 \<longrightarrow>
      (\<exists>err. UnregisterTrackedID env st m4 s = (Some err, s) \<and> StaleRequest err))"
  by (simp add: RegisterToken_def RegisterTrackedID_def UnregisterToken_def
        UnregisterTrackedID_def Let_def time_Sub_stale_iff StaleRequest_timestampError)

theorem stale_request_rejected_witness:
  "5000000000 < Now ex_env 0 - RequestTimestamp (ex_register 0 ''tokA'')
   \<and> RegisterToken ex_env (DatabaseImpl ex_net) (ex_register 0 ''tokA'') ex_db
       = (Some (''Timestamp of request must be within last 5 seconds.  ''
                @ ''Request timestamp: early, current time: late''), ex_db)
   \<and> Request (ex_register_tracked 0) = Some (ex_tracked 0)
   \<and> 5000000000 < Now ex_env 0 - tRequestTimestamp (ex_tracked 0)
   \<and> (\<exists>err. RegisterTrackedID ex_env (DatabaseImpl ex_net) (ex_register_tracked 0) ex_db
               = Some (Some err, ex_db))
   \<and> 5000000000 < Now ex_env 0 - uRequestTimestamp (ex_unregister 0)
   \<and> (\<exists>err. UnregisterToken ex_env (DatabaseImpl ex_net) (ex_unregister 0) ex_db
               = (Some err, ex_db))
   \<and> 5000000000 < Now ex_env 0 - tRequestTimestamp (ex_tracked 0)
   \<and> (\<exists>err. UnregisterTrackedID ex_env (DatabaseImpl ex_net) (ex_tracked 0) ex_db
               = (Some err, ex_db))"
  using stale_request_rejected [of ex_env "ex_register 0 ''tokA''" "DatabaseImpl ex_net" ex_db
      "ex_register_tracked 0" "ex_tracked 0" "ex_unregister 0" "ex_tracked 0"]
  apply (simp add: ex_env_def ex_register_def ex_register_tracked_def ex_unregister_def
      ex_tracked_def)
  apply (auto simp add: RegisterToken_def Let_def time_Sub_stale_iff timestampError_def)
  done

section \<open>Registration of a token\<close>

lemma UntrustedKey_no_host:
  "UntrustedKey (errors_New ''Could not find permissioning host to verify client signature'')"
  by (simp add: UntrustedKey_def errors_New_def)

lemma UntrustedKey_bad_registrar:
  "UntrustedKey (errors_WithMessage err ''Failed to verify permissioning signature'')"
  by (simp add: UntrustedKey_def errors_WithMessage_def)

lemma BadSignature_unmarshal:
  "BadSignature (errors_WithMessage err ''Failed to unmarshal public key'')"
  by (simp add: BadSignature_def errors_WithMessage_def)

lemma BadSignature_token:
  "BadSignature (errors_WithMessage err ''Failed to verify token signature'')"
  by (simp add: BadSignature_def errors_WithMessage_def)

lemma BadSignature_identity:
  "BadSignature (errors_WithMessage err ''Failed to verify identity signature'')"
  by (simp add: BadSignature_def errors_WithMessage_def)

lemma find_update_Token:
  "list_ex (\<lambda>r. Id r = Id u) rows \<Longrightarrow>
   find (\<lambda>r. Id r = Id u) (map (\<lambda>r. if Id r = Id u then r\<lparr>Token := Token u\<rparr> else r) rows)
     = Some \<lparr>Id = Id u, Token = Token u\<rparr>"
  by (induction rows) auto

lemma find_append_new:
  "\<not> list_ex (\<lambda>r. Id r = Id u) rows \<Longrightarrow> find (\<lambda>r. Id r = Id u) (rows @ [u]) = Some u"
  by (induction rows) auto

lemma pg_Select_after_Insert:
  assumes "Id u' = Id u"
  shows "pg_Select (snd (pg_Insert_OnConflict db u)) u' = Inr \<lparr>Id = Id u, Token = Token u\<rparr>"
proof (cases "list_ex (\<lambda>r. Id r = Id u) (users db)")
  case True
  then show ?thesis
    using find_update_Token [of u "users db"] assms
    by (simp add: pg_Select_def pg_Insert_OnConflict_def)
next
  case False
  then show ?thesis
    using find_append_new [of u "users db"] assms
    by (simp add: pg_Select_def pg_Insert_OnConflict_def)
qed

lemma pg_Insert_OnConflict_no_error: "fst (pg_Insert_OnConflict db u) = None"
  by (simp add: pg_Insert_OnConflict_def)

lemma UpsertUser_result:
  "UpsertUser db u = (None, snd (pg_Insert_OnConflict db u))"
proof -
  obtain db' where ins: "pg_Insert_OnConflict db u = (None, db')"
    using pg_Insert_OnConflict_no_error [of db u] by (cases "pg_Insert_OnConflict db u") auto
  have "pg_Select db' u = Inr \<lparr>Id = Id u, Token = Token u\<rparr>"
    using pg_Select_after_Insert [of u u db] ins by simp
  with ins show ?thesis
    by (simp add: UpsertUser_def Let_def)
qed

lemma GetUser_after_Upsert:
  "GetUser (snd (UpsertUser db u)) (Id u) = Inr \<lparr>Id = Id u, Token = Token u\<rparr>"
  using pg_Select_after_Insert [of "\<lparr>Id = Id u, Token = []\<rparr>" u db]
  by (simp add: UpsertUser_result GetUser_def)

lemma RegisterToken_accepts:
  assumes "Now env 0 - RequestTimestamp msg \<le> 5000000000"
    and "registrar_verifies env (RegistrationTimestamp msg) (TransmissionRsaPem msg)
           (TransmissionRsaRegistrarSig msg)"
    and "token_verifies env (TransmissionRsaPem msg) (Token_of msg) (App msg)
           (RequestTimestamp msg) RegisterTokenTag (TokenSignature msg)"
  shows "RegisterToken env st msg s =
           Storage_RegisterToken st s (Token_of msg) (App msg) (TransmissionRsaPem msg)"
  using assms
  by (auto simp add: RegisterToken_def Let_def time_Sub_stale_iff registrar_verifies_def
        token_verifies_def split: option.splits sum.splits)

text \<open>
  C2. For a RegisterToken request that passes the freshness check: when the registrar
  signature does not verify under the key of the permissioning host, or that host is
  unknown, the handler fails with an UntrustedKey error and leaves storage as it was;
  otherwise, when the token signature does not verify under the PEM-encoded key (the key
  does not parse, or the signature is rejected), it fails with a BadSignature error and
  leaves storage as it was; otherwise it upserts the User keyed by the key fingerprint
  and returns no error, so that the User read back has the registered token.
\<close>

theorem RegisterToken_verification:
  assumes fresh: "Now env 0 - RequestTimestamp msg \<le> 5000000000"
  shows "(\<not> registrar_verifies env (RegistrationTimestamp msg) (TransmissionRsaPem msg)
              (TransmissionRsaRegistrarSig msg) \<longrightarrow>
            (\<exists>err. RegisterToken env st msg s = (Some err, s) \<and> UntrustedKey err))
       \<and> (registrar_verifies env (RegistrationTimestamp msg) (TransmissionRsaPem msg)
              (TransmissionRsaRegistrarSig msg)
          \<and> \<not> token_verifies env (TransmissionRsaPem msg) (Token_of msg) (App msg)
                (RequestTimestamp msg) RegisterTokenTag (TokenSignature msg) \<longrightarrow>
            (\<exists>err. RegisterToken env st msg s = (Some err, s) \<and> BadSignature err))
       \<and> (registrar_verifies env (RegistrationTimestamp msg) (TransmissionRsaPem msg)
              (TransmissionRsaRegistrarSig msg)
          \<and> token_verifies env (TransmissionRsaPem msg) (Token_of msg) (App msg)
                (RequestTimestamp msg) RegisterTokenTag (TokenSignature msg) \<longrightarrow>
            (\<exists>db'. RegisterToken env (DatabaseImpl net) msg db = (None, db')
               \<and> db' = snd (UpsertUser db
                    \<lparr>Id = Fingerprint net (TransmissionRsaPem msg), Token = Token_of msg\<rparr>)
               \<and> GetUser db' (Fingerprint net (TransmissionRsaPem msg))
                   = Inr \<lparr>Id = Fingerprint net (TransmissionRsaPem msg), Token = Token_of msg\<rparr>))"
proof (intro conjI impI)
  assume "\<not> registrar_verifies env (RegistrationTimestamp msg) (TransmissionRsaPem msg)
              (TransmissionRsaRegistrarSig msg)"
  with fresh show "\<exists>err. RegisterToken env st msg s = (Some err, s) \<and> UntrustedKey err"
    by (auto simp add: RegisterToken_def Let_def time_Sub_stale_iff registrar_verifies_def
          UntrustedKey_no_host UntrustedKey_bad_registrar split: option.splits)
next
  assume "registrar_verifies env (RegistrationTimestamp msg) (TransmissionRsaPem msg)
              (TransmissionRsaRegistrarSig msg)
          \<and> \<not> token_verifies env (TransmissionRsaPem msg) (Token_of msg) (App msg)
                (RequestTimestamp msg) RegisterTokenTag (TokenSignature msg)"
  with fresh show "\<exists>err. RegisterToken env st msg s = (Some err, s) \<and> BadSignature err"
    by (auto simp add: RegisterToken_def Let_def time_Sub_stale_iff registrar_verifies_def
          token_verifies_def BadSignature_unmarshal BadSignature_token
          split: option.splits sum.splits)
next
  assume ok: "registrar_verifies env (RegistrationTimestamp msg) (TransmissionRsaPem msg)
              (TransmissionRsaRegistrarSig msg)
          \<and> token_verifies env (TransmissionRsaPem msg) (Token_of msg) (App msg)
                (RequestTimestamp msg) RegisterTokenTag (TokenSignature msg)"
  have "RegisterToken env (DatabaseImpl net) msg db =
          UpsertUser db \<lparr>Id = Fingerprint net (TransmissionRsaPem msg), Token = Token_of msg\<rparr>"
    using RegisterToken_accepts [OF fresh, of "DatabaseImpl net" db] ok
    by (simp add: DatabaseImpl_def db_RegisterToken_def)
  then show "\<exists>db'. RegisterToken env (DatabaseImpl net) msg db = (None, db')
               \<and> db' = snd (UpsertUser db
                    \<lparr>Id = Fingerprint net (TransmissionRsaPem msg), Token = Token_of msg\<rparr>)
               \<and> GetUser db' (Fingerprint net (TransmissionRsaPem msg))
                   = Inr \<lparr>Id = Fingerprint net (TransmissionRsaPem msg), Token = Token_of msg\<rparr>"
    using GetUser_after_Upsert
            [of db "\<lparr>Id = Fingerprint net (TransmissionRsaPem msg), Token = Token_of msg\<rparr>"]
    by (simp add: UpsertUser_result)
qed


theorem RegisterToken_verification_witness:
  "Now ex_env 0 - RequestTimestamp (ex_register 99999999999 ''tokA'') \<le> 5000000000
   \<and> RegisterToken ex_env (DatabaseImpl ex_net) (ex_register 99999999999 ''tokA'') ex_db
       = (None, ex_db\<lparr>users := users ex_db @ [\<lparr>Id = ''fp of pem K'', Token = ''tokA''\<rparr>]\<rparr>)
   \<and> GetUser (snd (RegisterToken ex_env (DatabaseImpl ex_net)
                     (ex_register 99999999999 ''tokA'') ex_db)) ''fp of pem K''
       = Inr \<lparr>Id = ''fp of pem K'', Token = ''tokA''\<rparr>
   \<and> (\<exists>err. RegisterToken ex_env (DatabaseImpl ex_net)
               ((ex_register 99999999999 ''tokA'')\<lparr>TransmissionRsaRegistrarSig := ''forged''\<rparr>)
               ex_db = (Some err, ex_db) \<and> UntrustedKey err)
   \<and> (\<exists>err. RegisterToken ex_env (DatabaseImpl ex_net)
               ((ex_register 99999999999 ''tokA'')\<lparr>TokenSignature := ''forged''\<rparr>)
               ex_db = (Some err, ex_db) \<and> BadSignature err)"
  using RegisterToken_verification
          [of ex_env "ex_register 99999999999 ''tokA''" "DatabaseImpl ex_net" ex_db ex_net ex_db]
        RegisterToken_verification
          [of ex_env "(ex_register 99999999999 ''tokA'')\<lparr>TransmissionRsaRegistrarSig := ''forged''\<rparr>"
              "DatabaseImpl ex_net" ex_db ex_net ex_db]
        RegisterToken_verification
          [of ex_env "(ex_register 99999999999 ''tokA'')\<lparr>TokenSignature := ''forged''\<rparr>"
              "DatabaseImpl ex_net" ex_db ex_net ex_db]
  by (simp add: ex_env_def ex_register_def ex_net_def ex_db_def registrar_verifies_def
        token_verifies_def UpsertUser_result pg_Insert_OnConflict_def)

section \<open>Registration round trip\<close>

lemma map_Id_update_Token:
  "map (Id \<circ> (\<lambda>r. if Id r = k then r\<lparr>Token := t\<rparr> else r)) rows = map Id rows"
  by (induction rows) auto

lemma list_ex_Id_iff: "list_ex (\<lambda>r. Id r = k) rows \<longleftrightarrow> k \<in> set (map Id rows)"
  by (induction rows) auto

lemma pg_Insert_OnConflict_distinct:
  "distinct (map Id (users db)) \<Longrightarrow>
   distinct (map Id (users (snd (pg_Insert_OnConflict db u))))"
  by (simp add: pg_Insert_OnConflict_def map_Id_update_Token list_ex_Id_iff)

lemma filter_Id_update_Token:
  "distinct (map Id rows) \<Longrightarrow> list_ex (\<lambda>r. Id r = Id u) rows \<Longrightarrow>
   filter (\<lambda>r. Id r = Id u) (map (\<lambda>r. if Id r = Id u then r\<lparr>Token := Token u\<rparr> else r) rows)
     = [\<lparr>Id = Id u, Token = Token u\<rparr>]"
proof (induction rows)
  case Nil
  then show ?case by simp
next
  case (Cons a rows)
  show ?case
  proof (cases "Id a = Id u")
    case True
    with Cons.prems have "\<forall>r \<in> set rows. Id r \<noteq> Id u" by force
    then have "filter (\<lambda>r. Id r = Id u)
                 (map (\<lambda>r. if Id r = Id u then r\<lparr>Token := Token u\<rparr> else r) rows) = []"
      by (induction rows) auto
    with True show ?thesis by simp
  next
    case False
    with Cons show ?thesis by simp
  qed
qed

lemma filter_Id_append_new:
  "\<not> list_ex (\<lambda>r. Id r = Id u) rows \<Longrightarrow> filter (\<lambda>r. Id r = Id u) (rows @ [u]) = [u]"
  by (induction rows) auto

lemma pg_Insert_OnConflict_one_row:
  assumes "distinct (map Id (users db))"
  shows "filter (\<lambda>r. Id r = Id u) (users (snd (pg_Insert_OnConflict db u)))
           = [\<lparr>Id = Id u, Token = Token u\<rparr>]"
proof (cases "list_ex (\<lambda>r. Id r = Id u) (users db)")
  case True
  then show ?thesis
    using filter_Id_update_Token [OF assms, of u] by (simp add: pg_Insert_OnConflict_def)
next
  case False
  then show ?thesis
    using filter_Id_append_new [of u "users db"] by (simp add: pg_Insert_OnConflict_def)
qed

lemma RegisterToken_valid:
  assumes "valid_RegisterToken env msg"
  shows "RegisterToken env (DatabaseImpl net) msg db =
           (None, snd (pg_Insert_OnConflict db
              \<lparr>Id = Fingerprint net (TransmissionRsaPem msg), Token = Token_of msg\<rparr>))"
  using assms RegisterToken_accepts [of env msg "DatabaseImpl net" db]
  by (simp add: valid_RegisterToken_def DatabaseImpl_def db_RegisterToken_def UpsertUser_result)

text \<open>
  C3. For valid signed requests, RegisterToken followed by GetUser on the key returns a
  User whose token is the registered one; and after two successive RegisterToken calls
  with the same key and two tokens, GetUser returns the second token and, the primary
  key being unique before, the table holds exactly one row for the key, with the second
  token.
\<close>

theorem register_roundtrip:
  assumes v1: "valid_RegisterToken env1 m1" and v2: "valid_RegisterToken env2 m2"
    and key: "TransmissionRsaPem m2 = TransmissionRsaPem m1"
  shows "\<exists>db1 db2.
           RegisterToken env1 (DatabaseImpl net) m1 db = (None, db1)
         \<and> GetUser db1 (Fingerprint net (TransmissionRsaPem m1))
             = Inr \<lparr>Id = Fingerprint net (TransmissionRsaPem m1), Token = Token_of m1\<rparr>
         \<and> RegisterToken env2 (DatabaseImpl net) m2 db1 = (None, db2)
         \<and> GetUser db2 (Fingerprint net (TransmissionRsaPem m1))
             = Inr \<lparr>Id = Fingerprint net (TransmissionRsaPem m1), Token = Token_of m2\<rparr>
         \<and> (distinct (map Id (users db)) \<longrightarrow>
              filter (\<lambda>r. Id r = Fingerprint net (TransmissionRsaPem m1)) (users db2)
                = [\<lparr>Id = Fingerprint net (TransmissionRsaPem m1), Token = Token_of m2\<rparr>])"
proof -
  let ?fp = "Fingerprint net (TransmissionRsaPem m1)"
  let ?u1 = "\<lparr>Id = ?fp, Token = Token_of m1\<rparr>"
  let ?u2 = "\<lparr>Id = ?fp, Token = Token_of m2\<rparr>"
  let ?db1 = "snd (pg_Insert_OnConflict db ?u1)"
  let ?db2 = "snd (pg_Insert_OnConflict ?db1 ?u2)"
  have r1: "RegisterToken env1 (DatabaseImpl net) m1 db = (None, ?db1)"
    using RegisterToken_valid [OF v1] by simp
  have r2: "RegisterToken env2 (DatabaseImpl net) m2 ?db1 = (None, ?db2)"
    using RegisterToken_valid [OF v2, of net ?db1] key by simp
  have g1: "GetUser ?db1 ?fp = Inr ?u1"
    using GetUser_after_Upsert [of db ?u1] by (simp add: UpsertUser_result)
  have g2: "GetUser ?db2 ?fp = Inr ?u2"
    using GetUser_after_Upsert [of ?db1 ?u2] by (simp add: UpsertUser_result)
  have one: "distinct (map Id (users db)) \<longrightarrow> filter (\<lambda>r. Id r = ?fp) (users ?db2) = [?u2]"
  proof
    assume "distinct (map Id (users db))"
    then have "distinct (map Id (users ?db1))" by (rule pg_Insert_OnConflict_distinct)
    then show "filter (\<lambda>r. Id r = ?fp) (users ?db2) = [?u2]"
      using pg_Insert_OnConflict_one_row [of ?db1 ?u2] by simp
  qed
  from r1 r2 g1 g2 one show ?thesis by blast
qed

theorem register_roundtrip_witness:
  "valid_RegisterToken ex_env (ex_register 99999999999 ''tokA'')
   \<and> valid_RegisterToken ex_env (ex_register 99999999998 ''tokB'')
   \<and> TransmissionRsaPem (ex_register 99999999998 ''tokB'')
       = TransmissionRsaPem (ex_register 99999999999 ''tokA'')
   \<and> distinct (map Id (users ex_db))
   \<and> users (snd (RegisterToken ex_env (DatabaseImpl ex_net) (ex_register 99999999998 ''tokB'')
        (snd (RegisterToken ex_env (DatabaseImpl ex_net) (ex_register 99999999999 ''tokA'')
           ex_db))))
       = [\<lparr>Id = ''zezima'', Token = ''token Z''\<rparr>, \<lparr>Id = ''fp of pem K'', Token = ''tokB''\<rparr>]"
  using register_roundtrip [of ex_env "ex_register 99999999999 ''tokA''" ex_env
          "ex_register 99999999998 ''tokB''" ex_net ex_db]
  by (auto simp add: valid_RegisterToken_def registrar_verifies_def token_verifies_def
        ex_env_def ex_register_def ex_net_def ex_db_def pg_Insert_OnConflict_def
        RegisterToken_valid)

section \<open>Unregistration\<close>

lemma UnregisterToken_valid:
  assumes "valid_UnregisterToken env msg"
  shows "UnregisterToken env st msg s =
           Storage_UnregisterToken st s (uToken msg) (uTransmissionRsaPem msg)"
  using assms
  by (auto simp add: UnregisterToken_def valid_UnregisterToken_def Let_def time_Sub_stale_iff
        token_verifies_def split: sum.splits option.splits)

lemma UnregisterTrackedID_valid:
  assumes "valid_UnregisterTrackedID env msg"
  shows "UnregisterTrackedID env st msg s =
           Storage_UnregisterTrackedIDs st s (TrackedIntermediaryID msg) (tTransmissionRsaPem msg)"
  using assms
  by (auto simp add: UnregisterTrackedID_def valid_UnregisterTrackedID_def Let_def
        time_Sub_stale_iff identity_verifies_def split: sum.splits option.splits)

lemma filter_absent: "\<not> list_ex (\<lambda>r. \<not> P r) rows \<Longrightarrow> filter P rows = rows"
  by (induction rows) auto

text \<open>
  C6. UnregisterToken and UnregisterTrackedID are idempotent deletes: from every state,
  two successive calls with valid signed requests for the same key (and the same
  identity) both return no error, the second leaving the state the first produced; and
  a valid request for an entity that storage does not hold returns no error and leaves
  storage unchanged.
\<close>

theorem unregister_idempotent:
  "(valid_UnregisterToken env1 m1 \<and> valid_UnregisterToken env2 m2
      \<and> uTransmissionRsaPem m2 = uTransmissionRsaPem m1 \<longrightarrow>
    (\<exists>db1. UnregisterToken env1 (DatabaseImpl net) m1 db = (None, db1)
        \<and> UnregisterToken env2 (DatabaseImpl net) m2 db1 = (None, db1)))
   \<and> (valid_UnregisterToken env1 m1
      \<and> \<not> list_ex (\<lambda>r. Id r = Fingerprint net (uTransmissionRsaPem m1)) (users db) \<longrightarrow>
    UnregisterToken env1 (DatabaseImpl net) m1 db = (None, db))
   \<and> (valid_UnregisterTrackedID env3 t1 \<and> valid_UnregisterTrackedID env4 t2
      \<and> tTransmissionRsaPem t2 = tTransmissionRsaPem t1
      \<and> TrackedIntermediaryID t2 = TrackedIntermediaryID t1 \<longrightarrow>
    (\<exists>db1. UnregisterTrackedID env3 (DatabaseImpl net) t1 db = (None, db1)
        \<and> UnregisterTrackedID env4 (DatabaseImpl net) t2 db1 = (None, db1)))
   \<and> (valid_UnregisterTrackedID env3 t1
      \<and> \<not> list_ex (\<lambda>t. IntermediaryId t = TrackedIntermediaryID t1
                       \<and> Owner t = Fingerprint net (tTransmissionRsaPem t1))
            (identities db) \<longrightarrow>
    UnregisterTrackedID env3 (DatabaseImpl net) t1 db = (None, db))"
proof (intro conjI impI)
  assume a: "valid_UnregisterToken env1 m1 \<and> valid_UnregisterToken env2 m2
      \<and> uTransmissionRsaPem m2 = uTransmissionRsaPem m1"
  let ?fp = "Fingerprint net (uTransmissionRsaPem m1)"
  let ?db1 = "db\<lparr>users := filter (\<lambda>r. Id r \<noteq> ?fp) (users db)\<rparr>"
  have r1: "UnregisterToken env1 (DatabaseImpl net) m1 db = (None, ?db1)"
    using a UnregisterToken_valid [of env1 m1 "DatabaseImpl net" db]
    by (simp add: DatabaseImpl_def db_UnregisterToken_def)
  have r2: "UnregisterToken env2 (DatabaseImpl net) m2 ?db1 = (None, ?db1)"
    using a UnregisterToken_valid [of env2 m2 "DatabaseImpl net" ?db1]
    by (simp add: DatabaseImpl_def db_UnregisterToken_def)
  from r1 r2
  show "\<exists>db1. UnregisterToken env1 (DatabaseImpl net) m1 db = (None, db1)
        \<and> UnregisterToken env2 (DatabaseImpl net) m2 db1 = (None, db1)"
    by blast
next
  assume a: "valid_UnregisterToken env1 m1
      \<and> \<not> list_ex (\<lambda>r. Id r = Fingerprint net (uTransmissionRsaPem m1)) (users db)"
  then show "UnregisterToken env1 (DatabaseImpl net) m1 db = (None, db)"
    using UnregisterToken_valid [of env1 m1 "DatabaseImpl net" db]
      filter_absent [of "\<lambda>r. Id r \<noteq> Fingerprint net (uTransmissionRsaPem m1)" "users db"]
    by (simp add: DatabaseImpl_def db_UnregisterToken_def)
next
  assume a: "valid_UnregisterTrackedID env3 t1 \<and> valid_UnregisterTrackedID env4 t2
      \<and> tTransmissionRsaPem t2 = tTransmissionRsaPem t1
      \<and> TrackedIntermediaryID t2 = TrackedIntermediaryID t1"
  let ?P = "\<lambda>t. \<not> (IntermediaryId t = TrackedIntermediaryID t1
                   \<and> Owner t = Fingerprint net (tTransmissionRsaPem t1))"
  let ?db1 = "db\<lparr>identities := filter ?P (identities db)\<rparr>"
  have r1: "UnregisterTrackedID env3 (DatabaseImpl net) t1 db = (None, ?db1)"
    using a UnregisterTrackedID_valid [of env3 t1 "DatabaseImpl net" db]
    by (simp add: DatabaseImpl_def db_UnregisterTrackedIDs_def)
  have r2: "UnregisterTrackedID env4 (DatabaseImpl net) t2 ?db1 = (None, ?db1)"
    using a UnregisterTrackedID_valid [of env4 t2 "DatabaseImpl net" ?db1]
    by (simp add: DatabaseImpl_def db_UnregisterTrackedIDs_def)
  from r1 r2
  show "\<exists>db1. UnregisterTrackedID env3 (DatabaseImpl net) t1 db = (None, db1)
        \<and> UnregisterTrackedID env4 (DatabaseImpl net) t2 db1 = (None, db1)"
    by blast
next
  assume a: "valid_UnregisterTrackedID env3 t1
      \<and> \<not> list_ex (\<lambda>t. IntermediaryId t = TrackedIntermediaryID t1
                       \<and> Owner t = Fingerprint net (tTransmissionRsaPem t1))
            (identities db)"
  then show "UnregisterTrackedID env3 (DatabaseImpl net) t1 db = (None, db)"
    using UnregisterTrackedID_valid [of env3 t1 "DatabaseImpl net" db]
      filter_absent [of "\<lambda>t. \<not> (IntermediaryId t = TrackedIntermediaryID t1
                   \<and> Owner t = Fingerprint net (tTransmissionRsaPem t1))" "identities db"]
    by (simp add: DatabaseImpl_def db_UnregisterTrackedIDs_def)
qed

theorem unregister_idempotent_witness:
  "valid_UnregisterToken ex_env (ex_unregister 99999999999)
   \<and> valid_UnregisterToken ex_env (ex_unregister 99999999998)
   \<and> uTransmissionRsaPem (ex_unregister 99999999998)
       = uTransmissionRsaPem (ex_unregister 99999999999)
   \<and> UnregisterToken ex_env (DatabaseImpl ex_net) (ex_unregister 99999999999) ex_db_K
       = (None, ex_db_K\<lparr>users := [\<lparr>Id = ''zezima'', Token = ''token Z''\<rparr>]\<rparr>)
   \<and> UnregisterToken ex_env (DatabaseImpl ex_net) (ex_unregister 99999999998)
        (ex_db_K\<lparr>users := [\<lparr>Id = ''zezima'', Token = ''token Z''\<rparr>]\<rparr>)
       = (None, ex_db_K\<lparr>users := [\<lparr>Id = ''zezima'', Token = ''token Z''\<rparr>]\<rparr>)
   \<and> \<not> list_ex (\<lambda>r. Id r = Fingerprint ex_net (uTransmissionRsaPem (ex_unregister 99999999999)))
          (users ex_db)
   \<and> UnregisterToken ex_env (DatabaseImpl ex_net) (ex_unregister 99999999999) ex_db
       = (None, ex_db)
   \<and> valid_UnregisterTrackedID ex_env (ex_tracked 99999999999)
   \<and> valid_UnregisterTrackedID ex_env (ex_tracked 99999999998)
   \<and> UnregisterTrackedID ex_env (DatabaseImpl ex_net) (ex_tracked 99999999999) ex_db_K
       = (None, ex_db_K\<lparr>identities := []\<rparr>)
   \<and> UnregisterTrackedID ex_env (DatabaseImpl ex_net) (ex_tracked 99999999998)
        (ex_db_K\<lparr>identities := []\<rparr>)
       = (None, ex_db_K\<lparr>identities := []\<rparr>)
   \<and> \<not> list_ex (\<lambda>t. IntermediaryId t = TrackedIntermediaryID (ex_tracked 99999999999)
                    \<and> Owner t = Fingerprint ex_net (tTransmissionRsaPem (ex_tracked 99999999999)))
          (identities ex_db)
   \<and> UnregisterTrackedID ex_env (DatabaseImpl ex_net) (ex_tracked 99999999999) ex_db
       = (None, ex_db)"
  using unregister_idempotent [of ex_env "ex_unregister 99999999999" ex_env
          "ex_unregister 99999999998" ex_net ex_db_K ex_env "ex_tracked 99999999999" ex_env
          "ex_tracked 99999999998"]
        unregister_idempotent [of ex_env "ex_unregister 99999999999" ex_env
          "ex_unregister 99999999998" ex_net ex_db ex_env "ex_tracked 99999999999" ex_env
          "ex_tracked 99999999998"]
  by (simp add: valid_UnregisterToken_def valid_UnregisterTrackedID_def token_verifies_def
        identity_verifies_def ex_env_def ex_unregister_def ex_tracked_def ex_net_def
        ex_db_K_def ex_db_def UnregisterToken_def UnregisterTrackedID_def Let_def
        time_Sub_stale_iff DatabaseImpl_def db_UnregisterToken_def db_UnregisterTrackedIDs_def)

section \<open>Registration of a tracked identity\<close>

lemma RegisterTrackedID_success:
  assumes "RegisterTrackedID env st msg s = Some (None, s')"
  shows "\<exists>req size0 rest. Request msg = Some req \<and> AddressSpace env = size0 # rest
           \<and> Storage_RegisterTrackedID st s (TrackedIntermediaryID req)
                (tTransmissionRsaPem req)
                (snd (HandleQuantization env (Now env 1))) size0 = (None, s')"
  using assms
  by (auto simp add: RegisterTrackedID_def Let_def
        split: if_splits option.splits sum.splits list.splits)

lemma db_RegisterTrackedID_success:
  assumes "db_RegisterTrackedID net db iid pem epoch size0 = (None, db')"
  shows "\<lparr>IntermediaryId = iid, Owner = Fingerprint net pem, OffsetNum = epoch,
           AddressSpaceSize = size0\<rparr> \<in> set (identities db')
       \<and> list_ex (\<lambda>r. eIntermediaryId r = iid \<and> Offset r = epoch) (ephemerals db')
       \<and> (\<not> list_ex (\<lambda>r. eIntermediaryId r = iid \<and> Offset r = epoch) (ephemerals db) \<longrightarrow>
            \<lparr>EphemeralId = Derive net iid epoch size0, eIntermediaryId = iid, Offset = epoch,
             Created = Clock net, Expiry = Clock net + EpochDuration net\<rparr>
              \<in> set (ephemerals db'))"
  using assms
  by (auto simp add: db_RegisterTrackedID_def Let_def split: if_splits)

text \<open>
  C7. Whenever RegisterTrackedID returns no error, storage holds a TrackedIdentity for
  the intermediary identity of the request whose offset is the epoch that
  HandleQuantization gives for the clock reading taken after the checks, and whose
  address-space size is the one the handler reads from the network definition; and it
  holds an epoch record for that identity and offset, which is created by this call
  (creation time the storage clock, expiry one epoch duration later) when none existed.
\<close>

theorem RegisterTrackedID_inserts:
  assumes "RegisterTrackedID env (DatabaseImpl net) msg db = Some (None, db')"
  shows "\<exists>req size0 rest. Request msg = Some req \<and> AddressSpace env = size0 # rest
       \<and> \<lparr>IntermediaryId = TrackedIntermediaryID req,
           Owner = Fingerprint net (tTransmissionRsaPem req),
           OffsetNum = snd (HandleQuantization env (Now env 1)),
           AddressSpaceSize = size0\<rparr> \<in> set (identities db')
       \<and> list_ex (\<lambda>r. eIntermediaryId r = TrackedIntermediaryID req
                      \<and> Offset r = snd (HandleQuantization env (Now env 1)))
            (ephemerals db')
       \<and> (\<not> list_ex (\<lambda>r. eIntermediaryId r = TrackedIntermediaryID req
                      \<and> Offset r = snd (HandleQuantization env (Now env 1)))
              (ephemerals db) \<longrightarrow>
            \<lparr>EphemeralId = Derive net (TrackedIntermediaryID req)
                             (snd (HandleQuantization env (Now env 1))) size0,
             eIntermediaryId = TrackedIntermediaryID req,
             Offset = snd (HandleQuantization env (Now env 1)),
             Created = Clock net, Expiry = Clock net + EpochDuration net\<rparr>
              \<in> set (ephemerals db'))"
proof -
  from RegisterTrackedID_success [OF assms]
  obtain req size0 rest where rq: "Request msg = Some req"
    and sp: "AddressSpace env = size0 # rest"
    and st: "db_RegisterTrackedID net db (TrackedIntermediaryID req)
                (tTransmissionRsaPem req)
                (snd (HandleQuantization env (Now env 1))) size0 = (None, db')"
    by (auto simp add: DatabaseImpl_def)
  from db_RegisterTrackedID_success [OF st] rq sp show ?thesis by blast
qed

theorem RegisterTrackedID_inserts_witness:
  "RegisterTrackedID ex_env (DatabaseImpl ex_net) (ex_register_tracked 99999999999) ex_db_K
     = Some (None, ex_db_K\<lparr>identities := identities ex_db_K @
                [\<lparr>IntermediaryId = ''abc123'', Owner = ''fp of pem K'', OffsetNum = 1,
                  AddressSpaceSize = 16\<rparr>],
              ephemerals := ephemerals ex_db_K @
                [\<lparr>EphemeralId = 7, eIntermediaryId = ''abc123'', Offset = 1,
                  Created = 100000000002, Expiry = 160000000002\<rparr>]\<rparr>)"
  using RegisterTrackedID_inserts [of ex_env ex_net "ex_register_tracked 99999999999" ex_db_K
    "ex_db_K\<lparr>identities := identities ex_db_K @
                [\<lparr>IntermediaryId = ''abc123'', Owner = ''fp of pem K'', OffsetNum = 1,
                  AddressSpaceSize = 16\<rparr>],
              ephemerals := ephemerals ex_db_K @
                [\<lparr>EphemeralId = 7, eIntermediaryId = ''abc123'', Offset = 1,
                  Created = 100000000002, Expiry = 160000000002\<rparr>]\<rparr>"]
  by (simp add: RegisterTrackedID_def Let_def time_Sub_stale_iff ex_env_def ex_net_def
        ex_register_tracked_def ex_tracked_def ex_db_K_def DatabaseImpl_def
        db_RegisterTrackedID_def)

section \<open>Deleter pass\<close>

text \<open>
  C8. After one deleter pass, the epoch records left are exactly those whose expiry was
  not in the past when the pass ran: every expired record is absent and every other
  record is still present; users and tracked identities are untouched. The pass reads
  only the expiry stored in the record: rewriting any other field of the records
  (offset, creation time, identity) changes nothing in what is kept.
\<close>

theorem deleter_pass_expired:
  "set (ephemerals (deleter_pass now db)) = {r \<in> set (ephemerals db). \<not> Expiry r < now}
   \<and> (\<forall>r \<in> set (ephemerals db). Expiry r < now \<longrightarrow> r \<notin> set (ephemerals (deleter_pass now db)))
   \<and> (\<forall>r \<in> set (ephemerals db). now \<le> Expiry r \<longrightarrow> r \<in> set (ephemerals (deleter_pass now db)))
   \<and> users (deleter_pass now db) = users db
   \<and> identities (deleter_pass now db) = identities db
   \<and> ((\<forall>r. Expiry (f r) = Expiry r) \<longrightarrow>
        ephemerals (deleter_pass now (db\<lparr>ephemerals := map f (ephemerals db)\<rparr>))
          = map f (ephemerals (deleter_pass now db)))"
  by (auto simp add: deleter_pass_def filter_map comp_def)

theorem deleter_pass_expired_witness:
  "ephemerals (deleter_pass 100 ex_db_K)
     = [\<lparr>EphemeralId = 9, eIntermediaryId = ''xyz'', Offset = 3, Created = 110, Expiry = 150\<rparr>]
   \<and> (\<forall>r. Expiry (r\<lparr>Offset := 4, Created := 120\<rparr>) = Expiry r)
   \<and> ephemerals (deleter_pass 100
        (ex_db_K\<lparr>ephemerals := map (\<lambda>r. r\<lparr>Offset := 4, Created := 120\<rparr>) (ephemerals ex_db_K)\<rparr>))
     = [\<lparr>EphemeralId = 9, eIntermediaryId = ''xyz'', Offset = 4, Created = 120, Expiry = 150\<rparr>]"
  using deleter_pass_expired [of 100 ex_db_K "\<lambda>r. r\<lparr>Offset := 4, Created := 120\<rparr>"]
  by (simp add: deleter_pass_def ex_db_K_def)

section \<open>Dispatch loop\<close>

lemma strings_Contains_iff: "strings_Contains s substr \<longleftrightarrow> (\<exists>ps ss. s = ps @ substr @ ss)"
proof (induction s)
  case Nil
  then show ?case by auto
next
  case (Cons c cs)
  show ?case
  proof
    assume "strings_Contains (c # cs) substr"
    then consider "prefix substr (c # cs)" | "strings_Contains cs substr" by auto
    then show "\<exists>ps ss. c # cs = ps @ substr @ ss"
    proof cases
      case 1
      then obtain ss where "c # cs = substr @ ss" by (auto simp add: prefix_def)
      then have "c # cs = [] @ substr @ ss" by simp
      then show ?thesis by blast
    next
      case 2
      with Cons.IH obtain ps ss where "cs = ps @ substr @ ss" by blast
      then have "c # cs = (c # ps) @ substr @ ss" by simp
      then show ?thesis by blast
    qed
  next
    assume "\<exists>ps ss. c # cs = ps @ substr @ ss"
    then obtain ps ss where eq: "c # cs = ps @ substr @ ss" by blast
    show "strings_Contains (c # cs) substr"
    proof (cases ps)
      case Nil
      with eq have "prefix substr (c # cs)" by (simp add: prefix_def)
      then show ?thesis by simp
    next
      case (Cons p ps')
      with eq have "cs = ps' @ substr @ ss" by simp
      with Cons.IH have "strings_Contains cs substr" by blast
      then show ?thesis by simp
    qed
  qed
qed

lemma RunNotificationLoop_append:
  "RunNotificationLoop nb (pre @ evs) w =
     (case RunNotificationLoop nb pre w of
        (Returned, w') \<Rightarrow> (Returned, w')
      | (Running, w') \<Rightarrow> RunNotificationLoop nb evs w')"
  by (induction nb pre w rule: RunNotificationLoop.induct)
     (auto split: prod.splits option.splits outcome.splits)

lemma range_UIDs_append:
  "range_UIDs nb fc (pre @ UIDs) w =
     (case range_UIDs nb fc pre w of
        (Some err, w') \<Rightarrow> (Some err, w')
      | (None, w') \<Rightarrow> range_UIDs nb fc UIDs w')"
  by (induction nb fc pre w rule: range_UIDs.induct)
     (auto split: prod.splits option.splits)

lemma GetUser_found: "GetUser db uid = Inr u \<Longrightarrow> list_ex (\<lambda>r. Id r = uid) (users db)"
  by (auto simp add: GetUser_def pg_Select_def list_ex_iff find_Some_iff
        split: option.splits)

lemma GetUser_missing:
  "\<not> list_ex (\<lambda>r. Id r = uid) (users db) \<Longrightarrow>
   GetUser db uid = Inl (''Failed to retrieve user with ID '' @ uid @ '': '' @ pg_ErrNoRows)"
  by (auto simp add: GetUser_def pg_Select_def list_ex_iff find_None_iff split: option.splits)

lemma DeleteUser_found:
  "list_ex (\<lambda>r. Id r = uid) (users db) \<Longrightarrow>
   DeleteUser db uid = (None, db\<lparr>users := filter (\<lambda>r. Id r \<noteq> uid) (users db)\<rparr>)"
  by (simp add: DeleteUser_def pg_Delete_def)

lemma fmt_bytes_durial: "fmt_bytes ''durial'' = ''[100 117 114 105 97 108]''"
  by code_simp

lemmas ex_defs = ex_client_def ex_db2_def ex_net_def ex_comms_def ex_comms_down_def
  ex_world_def ex_failing_delete_def

lemmas dispatch_defs = production_def notifyUser_def DatabaseImpl_def GetUser_def
  DeleteUser_def pg_Select_def pg_Delete_def pg_ErrNoRows_def sendNotification_def Send_def
  NewFirebaseComm_def pollForNotifications_def errors_Wrap_def errors_New_def

text \<open>
  C9. The select is the first statement of every iteration: whenever the loop is at the
  top of an iteration and the select takes the kill case, the loop returns with the
  state it had, whatever events would follow. When the select takes the timer case and
  the poll returns an error, that error, wrapped, is sent on the error channel and the
  loop returns; no later event is looked at. The poll of this package fails when the
  gateway host is unknown or the request for notifications returns an error.
\<close>

theorem poll_failure_and_kill:
  "(RunNotificationLoop nb pre w = (Running, w') \<longrightarrow>
      RunNotificationLoop nb (pre @ KillChan # evs) w = (Returned, w'))
   \<and> (RunNotificationLoop nb pre w = (Running, w') \<and> pollFunc nb comms = (UIDs, Some err) \<longrightarrow>
      RunNotificationLoop nb (pre @ TimeAfter comms # evs) w =
        (Returned, w'\<lparr>errChan := errChan w'
            @ [errors_Wrap err ''Failed to poll gateway for users to notify'']\<rparr>))
   \<and> (GetHost_gwId comms = None
        \<or> (\<exists>h e. GetHost_gwId comms = Some h \<and> RequestNotifications comms h = Inl e) \<longrightarrow>
      (\<exists>e. pollFunc (production st) comms = ([], Some e)))"
  by (auto simp add: RunNotificationLoop_append production_def pollForNotifications_def)

theorem poll_failure_and_kill_witness:
  "RunNotificationLoop (production (DatabaseImpl ex_net)) [TimeAfter (ex_comms [''ok''])]
      (ex_world ex_db2)
     = (Running, (ex_world ex_db2)\<lparr>fcm := ex_client\<lparr>Outbox :=
          [\<lparr>Title = ''xx Messenger'', Body = ''You have a new message in the xx Messenger'',
            mToken = ''token K''\<rparr>]\<rparr>\<rparr>)
   \<and> RunNotificationLoop (production (DatabaseImpl ex_net))
        ([TimeAfter (ex_comms [''ok''])] @ KillChan # [TimeAfter (ex_comms [''ok''])])
        (ex_world ex_db2)
     = (Returned, (ex_world ex_db2)\<lparr>fcm := ex_client\<lparr>Outbox :=
          [\<lparr>Title = ''xx Messenger'', Body = ''You have a new message in the xx Messenger'',
            mToken = ''token K''\<rparr>]\<rparr>\<rparr>)
   \<and> GetHost_gwId ex_comms_down = Some ''gateway''
   \<and> RequestNotifications ex_comms_down ''gateway'' = Inl ''context deadline exceeded''
   \<and> pollFunc (production (DatabaseImpl ex_net)) ex_comms_down
     = ([], Some (''Failed to retrieve notifications from gateway: ''
                  @ ''context deadline exceeded''))
   \<and> RunNotificationLoop (production (DatabaseImpl ex_net))
        ([TimeAfter (ex_comms [''ok''])] @ TimeAfter ex_comms_down
           # [TimeAfter (ex_comms [''ok''])])
        (ex_world ex_db2)
     = (Returned, (ex_world ex_db2)\<lparr>fcm := ex_client\<lparr>Outbox :=
          [\<lparr>Title = ''xx Messenger'', Body = ''You have a new message in the xx Messenger'',
            mToken = ''token K''\<rparr>]\<rparr>,
          errChan := [''Failed to poll gateway for users to notify: ''
             @ ''Failed to retrieve notifications from gateway: context deadline exceeded'']\<rparr>)"
  using poll_failure_and_kill [of "production (DatabaseImpl ex_net)"
          "[TimeAfter (ex_comms [''ok''])]" "ex_world ex_db2"
          "(ex_world ex_db2)\<lparr>fcm := ex_client\<lparr>Outbox :=
          [\<lparr>Title = ''xx Messenger'', Body = ''You have a new message in the xx Messenger'',
            mToken = ''token K''\<rparr>]\<rparr>\<rparr>"
          "[TimeAfter (ex_comms [''ok''])]" ex_comms_down "[]"
          "''Failed to retrieve notifications from gateway: context deadline exceeded''"
          "DatabaseImpl ex_net"]
  by (simp add: ex_defs dispatch_defs)

text \<open>
  C5. When storage finds no User for an identity of the batch, notifyUser returns the
  empty response and no error, hands no message to the provider and leaves storage as it
  was, and the loop over the batch goes on with the next identity from the same state.
  With the database backend this is the case of an identity that has no row.
\<close>

theorem user_not_found_skipped:
  "((\<exists>err. Storage_GetUser st db uid = Inl err) \<longrightarrow>
      notifyUser c uid fc st db = (([], None), c, db)
      \<and> range_UIDs (production st) fc (uid # UIDs) \<lparr>fcm = c, store = db, errChan = ch\<rparr>
          = range_UIDs (production st) fc UIDs \<lparr>fcm = c, store = db, errChan = ch\<rparr>)
   \<and> (\<not> list_ex (\<lambda>r. Id r = uid) (users d) \<longrightarrow>
      (\<exists>err. Storage_GetUser (DatabaseImpl net) d uid = Inl err))"
  by (auto simp add: notifyUser_def production_def DatabaseImpl_def GetUser_missing)


theorem user_not_found_skipped_witness:
  "\<not> list_ex (\<lambda>r. Id r = ''nobody'') (users ex_db2)
   \<and> Storage_GetUser (DatabaseImpl ex_net) ex_db2 ''nobody''
       = Inl ''Failed to retrieve user with ID nobody: pg: no rows in result set''
   \<and> notifyUser ex_client ''nobody'' NewFirebaseComm (DatabaseImpl ex_net) ex_db2
       = (([], None), ex_client, ex_db2)
   \<and> range_UIDs (production (DatabaseImpl ex_net)) NewFirebaseComm [''nobody'', ''ok'']
        \<lparr>fcm = ex_client, store = ex_db2, errChan = []\<rparr>
       = (None, \<lparr>fcm = ex_client\<lparr>Outbox :=
          [\<lparr>Title = ''xx Messenger'', Body = ''You have a new message in the xx Messenger'',
            mToken = ''token K''\<rparr>]\<rparr>, store = ex_db2, errChan = []\<rparr>)"
  using user_not_found_skipped [of "DatabaseImpl ex_net" ex_db2 "''nobody''" ex_client
          NewFirebaseComm "[''ok'']" "[]" ex_db2 ex_net]
  by (simp add: ex_defs dispatch_defs)

text \<open>
  C4. With the database backend, when the User of the identity is found and the
  provider's error for its token signals an invalid token (403 or 404), notifyUser
  deletes the User and returns the provider's response with no error. For any other
  provider error notifyUser returns that error, wrapped, and storage is as it was. An
  error of the notify function for an identity of the batch ends the batch: it is sent,
  wrapped, on the error channel, the loop returns, and the identities after it are not
  notified.
\<close>

theorem invalid_token_unregisters:
  "(GetUser db uid = Inr u \<and> SendNotification fc c (Token u) = ((resp, Some err), c')
      \<and> (strings_Contains err ''403'' \<or> strings_Contains err ''404'') \<longrightarrow>
      notifyUser c uid fc (DatabaseImpl net) db
        = ((resp, None), c', db\<lparr>users := filter (\<lambda>r. Id r \<noteq> uid) (users db)\<rparr>)
      \<and> \<not> list_ex (\<lambda>r. Id r = uid) (filter (\<lambda>r. Id r \<noteq> uid) (users db)))
   \<and> (Storage_GetUser st s uid = Inr u \<and> SendNotification fc c (Token u) = ((resp, Some err), c')
      \<and> \<not> strings_Contains err ''403'' \<and> \<not> strings_Contains err ''404'' \<longrightarrow>
      notifyUser c uid fc st s
        = (([], Some (errors_Wrap err (''Failed to send notification to user with ID '' @ uid))),
           c', s))
   \<and> (RunNotificationLoop nb pre w = (Running, w0)
      \<and> pollFunc nb comms = (sent @ uid' # rest, None)
      \<and> range_UIDs nb NewFirebaseComm sent w0 = (None, w1)
      \<and> notifyFunc nb (fcm w1) uid' NewFirebaseComm (Storage nb) (store w1)
          = ((r, Some e), c1, s1) \<longrightarrow>
      RunNotificationLoop nb (pre @ TimeAfter comms # evs) w
        = (Returned, w1\<lparr>fcm := c1, store := s1, errChan := errChan w1
             @ [errors_Wrap e (''Failed to notify user with ID '' @ fmt_bytes uid')]\<rparr>))"
proof (intro conjI impI)
  assume a: "GetUser db uid = Inr u \<and> SendNotification fc c (Token u) = ((resp, Some err), c')
      \<and> (strings_Contains err ''403'' \<or> strings_Contains err ''404'')"
  then have "DeleteUser db uid = (None, db\<lparr>users := filter (\<lambda>r. Id r \<noteq> uid) (users db)\<rparr>)"
    using GetUser_found DeleteUser_found by blast
  with a show "notifyUser c uid fc (DatabaseImpl net) db
        = ((resp, None), c', db\<lparr>users := filter (\<lambda>r. Id r \<noteq> uid) (users db)\<rparr>)"
    by (auto simp add: notifyUser_def DatabaseImpl_def)
next
  show "\<not> list_ex (\<lambda>r. Id r = uid) (filter (\<lambda>r. Id r \<noteq> uid) (users db))"
    by (simp add: list_ex_iff)
next
  assume "Storage_GetUser st s uid = Inr u \<and> SendNotification fc c (Token u) = ((resp, Some err), c')
      \<and> \<not> strings_Contains err ''403'' \<and> \<not> strings_Contains err ''404''"
  then show "notifyUser c uid fc st s
        = (([], Some (errors_Wrap err (''Failed to send notification to user with ID '' @ uid))),
           c', s)"
    by (simp add: notifyUser_def)
next
  assume "RunNotificationLoop nb pre w = (Running, w0)
      \<and> pollFunc nb comms = (sent @ uid' # rest, None)
      \<and> range_UIDs nb NewFirebaseComm sent w0 = (None, w1)
      \<and> notifyFunc nb (fcm w1) uid' NewFirebaseComm (Storage nb) (store w1)
          = ((r, Some e), c1, s1)"
  then show "RunNotificationLoop nb (pre @ TimeAfter comms # evs) w
        = (Returned, w1\<lparr>fcm := c1, store := s1, errChan := errChan w1
             @ [errors_Wrap e (''Failed to notify user with ID '' @ fmt_bytes uid')]\<rparr>)"
    by (simp add: RunNotificationLoop_append range_UIDs_append)
qed

theorem invalid_token_unregisters_witness:
  "GetUser ex_db2 ''zezima'' = Inr \<lparr>Id = ''zezima'', Token = ''token Z''\<rparr>
   \<and> strings_Contains (''Failed to send notification.  Response: : ''
         @ ''http error status: 404; reason: requested entity was not found'') ''404''
   \<and> notifyUser ex_client ''zezima'' NewFirebaseComm (DatabaseImpl ex_net) ex_db2
       = (([], None),
          ex_client\<lparr>Outbox :=
            [\<lparr>Title = ''xx Messenger'', Body = ''You have a new message in the xx Messenger'',
              mToken = ''token Z''\<rparr>]\<rparr>,
          ex_db2\<lparr>users := [\<lparr>Id = ''durial'', Token = ''token Q''\<rparr>,
                            \<lparr>Id = ''ok'', Token = ''token K''\<rparr>]\<rparr>)
   \<and> \<not> strings_Contains (''Failed to send notification.  Response: : ''
         @ ''http error status: 503; reason: unavailable'') ''403''
   \<and> \<not> strings_Contains (''Failed to send notification.  Response: : ''
         @ ''http error status: 503; reason: unavailable'') ''404''
   \<and> notifyUser ex_client ''durial'' NewFirebaseComm (DatabaseImpl ex_net) ex_db2
       = (([], Some (''Failed to send notification to user with ID durial: ''
             @ ''Failed to send notification.  Response: : ''
             @ ''http error status: 503; reason: unavailable'')),
          ex_client\<lparr>Outbox :=
            [\<lparr>Title = ''xx Messenger'', Body = ''You have a new message in the xx Messenger'',
              mToken = ''token Q''\<rparr>]\<rparr>,
          ex_db2)
   \<and> RunNotificationLoop (production (DatabaseImpl ex_net))
        ([] @ TimeAfter (ex_comms ([''ok''] @ ''durial'' # [''zezima'']))
           # [TimeAfter (ex_comms [''ok''])])
        (ex_world ex_db2)
       = (Returned,
          \<lparr>fcm = ex_client\<lparr>Outbox :=
            [\<lparr>Title = ''xx Messenger'', Body = ''You have a new message in the xx Messenger'',
              mToken = ''token K''\<rparr>,
             \<lparr>Title = ''xx Messenger'', Body = ''You have a new message in the xx Messenger'',
              mToken = ''token Q''\<rparr>]\<rparr>,
           store = ex_db2,
           errChan = [''Failed to notify user with ID [100 117 114 105 97 108]: ''
             @ ''Failed to send notification to user with ID durial: ''
             @ ''Failed to send notification.  Response: : ''
             @ ''http error status: 503; reason: unavailable'']\<rparr>)"
  using invalid_token_unregisters
          [where db = ex_db2 and uid = "''zezima''"
             and u = "\<lparr>Id = ''zezima'', Token = ''token Z''\<rparr>"
             and fc = NewFirebaseComm and c = ex_client and resp = "[]"
             and err = "''Failed to send notification.  Response: : http error status: 404; reason: requested entity was not found''"
             and c' = "ex_client\<lparr>Outbox :=
                [\<lparr>Title = ''xx Messenger'',
                  Body = ''You have a new message in the xx Messenger'',
                  mToken = ''token Z''\<rparr>]\<rparr>"
             and net = ex_net
             and nb = "production (DatabaseImpl ex_net)" and pre = "[]"
             and w = "ex_world ex_db2" and ?w0.0 = "ex_world ex_db2"
             and comms = "ex_comms ([''ok''] @ ''durial'' # [''zezima''])"
             and sent = "[''ok'']" and uid' = "''durial''" and rest = "[''zezima'']"
             and ?w1.0 = "(ex_world ex_db2)\<lparr>fcm := ex_client\<lparr>Outbox :=
                [\<lparr>Title = ''xx Messenger'',
                  Body = ''You have a new message in the xx Messenger'',
                  mToken = ''token K''\<rparr>]\<rparr>\<rparr>"
             and r = "[]"
             and e = "''Failed to send notification to user with ID durial: Failed to send notification.  Response: : http error status: 503; reason: unavailable''"
             and ?c1.0 = "ex_client\<lparr>Outbox :=
                [\<lparr>Title = ''xx Messenger'',
                  Body = ''You have a new message in the xx Messenger'',
                  mToken = ''token K''\<rparr>,
                 \<lparr>Title = ''xx Messenger'',
                  Body = ''You have a new message in the xx Messenger'',
                  mToken = ''token Q''\<rparr>]\<rparr>"
             and ?s1.0 = ex_db2 and evs = "[TimeAfter (ex_comms [''ok''])]"]
        invalid_token_unregisters
          [where st = "DatabaseImpl ex_net" and s = ex_db2 and uid = "''durial''"
             and u = "\<lparr>Id = ''durial'', Token = ''token Q''\<rparr>"
             and fc = NewFirebaseComm and c = ex_client and resp = "[]"
             and err = "''Failed to send notification.  Response: : http error status: 503; reason: unavailable''"
             and c' = "ex_client\<lparr>Outbox :=
                [\<lparr>Title = ''xx Messenger'',
                  Body = ''You have a new message in the xx Messenger'',
                  mToken = ''token Q''\<rparr>]\<rparr>"]
  by (simp add: ex_defs dispatch_defs fmt_bytes_durial)

text \<open>
  C10. For a found User and a provider error, notifyUser takes the invalid-token path
  exactly when the error message contains 403 or 404. On that path a failing DeleteUser
  makes notifyUser return the storage error, wrapped, and a DeleteUser that succeeds
  makes it return no error; off that path DeleteUser plays no part, the provider error
  is returned wrapped and storage is as it was.
\<close>

theorem invalid_token_classification:
  assumes "Storage_GetUser st db uid = Inr u"
    and "SendNotification fc c (Token u) = ((resp, Some err), c')"
  shows "(strings_Contains err ''403'' \<or> strings_Contains err ''404'' \<longrightarrow>
            (\<forall>e db'. Storage_DeleteUser st db uid = (Some e, db') \<longrightarrow>
               notifyUser c uid fc st db
                 = (([], Some (errors_Wrap e
                       (''Failed to remove user registration for uid: '' @ uid))), c', db'))
          \<and> (\<forall>db'. Storage_DeleteUser st db uid = (None, db') \<longrightarrow>
               notifyUser c uid fc st db = ((resp, None), c', db')))
       \<and> (\<not> (strings_Contains err ''403'' \<or> strings_Contains err ''404'') \<longrightarrow>
            notifyUser c uid fc st db
              = (([], Some (errors_Wrap err
                    (''Failed to send notification to user with ID '' @ uid))), c', db))"
  using assms by (simp add: notifyUser_def)

theorem invalid_token_classification_witness:
  "Storage_GetUser ex_failing_delete ex_db2 ''zezima'' = Inr \<lparr>Id = ''zezima'', Token = ''token Z''\<rparr>
   \<and> SendNotification NewFirebaseComm ex_client ''token Z''
       = (([], Some (''Failed to send notification.  Response: : ''
              @ ''http error status: 404; reason: requested entity was not found'')),
          ex_client\<lparr>Outbox :=
            [\<lparr>Title = ''xx Messenger'', Body = ''You have a new message in the xx Messenger'',
              mToken = ''token Z''\<rparr>]\<rparr>)
   \<and> strings_Contains (''Failed to send notification.  Response: : ''
         @ ''http error status: 404; reason: requested entity was not found'') ''404''
   \<and> Storage_DeleteUser ex_failing_delete ex_db2 ''zezima'' = (Some ''connection refused'', ex_db2)
   \<and> notifyUser ex_client ''zezima'' NewFirebaseComm ex_failing_delete ex_db2
       = (([], Some (''Failed to remove user registration for uid: zezima: ''
              @ ''connection refused'')),
          ex_client\<lparr>Outbox :=
            [\<lparr>Title = ''xx Messenger'', Body = ''You have a new message in the xx Messenger'',
              mToken = ''token Z''\<rparr>]\<rparr>,
          ex_db2)
   \<and> Storage_DeleteUser (DatabaseImpl ex_net) ex_db2 ''zezima''
       = (None, ex_db2\<lparr>users := [\<lparr>Id = ''durial'', Token = ''token Q''\<rparr>,
                                   \<lparr>Id = ''ok'', Token = ''token K''\<rparr>]\<rparr>)
   \<and> notifyUser ex_client ''zezima'' NewFirebaseComm (DatabaseImpl ex_net) ex_db2
       = (([], None),
          ex_client\<lparr>Outbox :=
            [\<lparr>Title = ''xx Messenger'', Body = ''You have a new message in the xx Messenger'',
              mToken = ''token Z''\<rparr>]\<rparr>,
          ex_db2\<lparr>users := [\<lparr>Id = ''durial'', Token = ''token Q''\<rparr>,
                            \<lparr>Id = ''ok'', Token = ''token K''\<rparr>]\<rparr>)
   \<and> \<not> (strings_Contains (''Failed to send notification.  Response: : ''
            @ ''http error status: 503; reason: unavailable'') ''403''
          \<or> strings_Contains (''Failed to send notification.  Response: : ''
            @ ''http error status: 503; reason: unavailable'') ''404'')
   \<and> notifyUser ex_client ''durial'' NewFirebaseComm ex_failing_delete ex_db2
       = (([], Some (''Failed to send notification to user with ID durial: ''
             @ ''Failed to send notification.  Response: : ''
             @ ''http error status: 503; reason: unavailable'')),
          ex_client\<lparr>Outbox :=
            [\<lparr>Title = ''xx Messenger'', Body = ''You have a new message in the xx Messenger'',
              mToken = ''token Q''\<rparr>]\<rparr>,
          ex_db2)"
  using invalid_token_classification
          [where st = ex_failing_delete and db = ex_db2 and uid = "''zezima''"
             and u = "\<lparr>Id = ''zezima'', Token = ''token Z''\<rparr>"
             and fc = NewFirebaseComm and c = ex_client and resp = "[]"
             and err = "''Failed to send notification.  Response: : http error status: 404; reason: requested entity was not found''"
             and c' = "ex_client\<lparr>Outbox :=
                [\<lparr>Title = ''xx Messenger'',
                  Body = ''You have a new message in the xx Messenger'',
                  mToken = ''token Z''\<rparr>]\<rparr>"]
        invalid_token_classification
          [where st = "DatabaseImpl ex_net" and db = ex_db2 and uid = "''zezima''"
             and u = "\<lparr>Id = ''zezima'', Token = ''token Z''\<rparr>"
             and fc = NewFirebaseComm and c = ex_client and resp = "[]"
             and err = "''Failed to send notification.  Response: : http error status: 404; reason: requested entity was not found''"
             and c' = "ex_client\<lparr>Outbox :=
                [\<lparr>Title = ''xx Messenger'',
                  Body = ''You have a new message in the xx Messenger'',
                  mToken = ''token Z''\<rparr>]\<rparr>"]
        invalid_token_classification
          [where st = ex_failing_delete and db = ex_db2 and uid = "''durial''"
             and u = "\<lparr>Id = ''durial'', Token = ''token Q''\<rparr>"
             and fc = NewFirebaseComm and c = ex_client and resp = "[]"
             and err = "''Failed to send notification.  Response: : http error status: 503; reason: unavailable''"
             and c' = "ex_client\<lparr>Outbox :=
                [\<lparr>Title = ''xx Messenger'',
                  Body = ''You have a new message in the xx Messenger'',
                  mToken = ''token Q''\<rparr>]\<rparr>"]
  by (simp add: ex_defs dispatch_defs)

end
